theory Spec2Isabelle
  imports Main
begin

section \<open>Python values, exceptions and the operations of main.py on them\<close>

text \<open>
  An exception is its class name and the text \<open>str(e)\<close> gives. A function of the
  program that can raise returns \<open>exc + 'a\<close>, with \<open>Inl\<close> for the exception.
\<close>

datatype exc = Exc (exc_class: string) (exc_str: string)

text \<open>
  The scalars held by a configuration value or by a cell of a DataFrame. The program
  never computes with a float or a timestamp: it only asks whether the value is missing
  and takes \<open>str\<close> of it, so a float other than NaN and a timestamp are carried by the
  text \<open>str\<close> gives them. \<open>PandasObj\<close> is a Series or DataFrame held where a scalar
  is expected (what line 147 tests for).
\<close>

datatype scalar =
    NoneV
  | NaN
  | NaT
  | BoolV bool
  | IntV int
  | FloatV string
  | StrV string
  | TimestampV string
  | PandasObj

text \<open>
  What \<open>yaml.safe_load\<close> and \<open>json.load\<close> return. A dict is the list of its items
  in iteration order; its keys are strings (always so for JSON, and for the column names
  and file names of a mapping document).
\<close>

datatype pyval =
    Scalar scalar
  | List "pyval list"
  | Dict "(string \<times> pyval) list"

fun isinstance_dict :: "pyval \<Rightarrow> bool" where
  "isinstance_dict (Dict kvs) = True"
| "isinstance_dict _ = False"

definition endswith :: "string \<Rightarrow> string \<Rightarrow> bool" where
  "endswith s suf \<longleftrightarrow> length suf \<le> length s \<and> drop (length s - length suf) s = suf"

fun startswith :: "string \<Rightarrow> string \<Rightarrow> bool" where
  "startswith s [] = True"
| "startswith [] (c # cs) = False"
| "startswith (x # xs) (c # cs) = (x = c \<and> startswith xs cs)"

text \<open>\<open>sub in s\<close> for two strings: \<open>sub\<close> occurs in \<open>s\<close>.\<close>

fun str_contains :: "string \<Rightarrow> string \<Rightarrow> bool" where
  "str_contains [] sub = (sub = [])"
| "str_contains (x # xs) sub = (startswith (x # xs) sub \<or> str_contains xs sub)"

text \<open>\<open>type(v).__name__\<close>, as the messages of TypeError and AttributeError print it.\<close>

fun type_name :: "pyval \<Rightarrow> string" where
  "type_name (Scalar NoneV) = ''NoneType''"
| "type_name (Scalar NaN) = ''float''"
| "type_name (Scalar NaT) = ''NaTType''"
| "type_name (Scalar (BoolV b)) = ''bool''"
| "type_name (Scalar (IntV i)) = ''int''"
| "type_name (Scalar (FloatV s)) = ''float''"
| "type_name (Scalar (StrV s)) = ''str''"
| "type_name (Scalar (TimestampV s)) = ''datetime.datetime''"
| "type_name (Scalar PandasObj) = ''Series''"
| "type_name (List xs) = ''list''"
| "type_name (Dict kvs) = ''dict''"

text \<open>A text between single quotes.\<close>

definition quoted :: "string \<Rightarrow> string" where
  "quoted s = [CHR 0x27] @ s @ [CHR 0x27]"

text \<open>
  \<open>key in container\<close> for a string key (lines 27, 31, 81, 125): a key of a dict, an
  element of a list, a substring of a string; on any other value Python raises TypeError.
\<close>

fun py_in :: "string \<Rightarrow> pyval \<Rightarrow> exc + bool" where
  "py_in key (Dict kvs) = Inr (key \<in> set (map fst kvs))"
| "py_in key (List xs) = Inr (Scalar (StrV key) \<in> set xs)"
| "py_in key (Scalar (StrV s)) = Inr (str_contains s key)"
| "py_in key (Scalar v) =
     Inl (Exc ''TypeError''
       (''argument of type '' @ quoted (type_name (Scalar v)) @ '' is not iterable''))"

text \<open>\<open>container[key]\<close> for a string key (lines 29, 31, 86, 117, 128).\<close>

fun py_getitem :: "pyval \<Rightarrow> string \<Rightarrow> exc + pyval" where
  "py_getitem (Dict kvs) key =
     (case map_of kvs key of
        None \<Rightarrow> Inl (Exc ''KeyError'' (quoted key))
      | Some v \<Rightarrow> Inr v)"
| "py_getitem (List xs) key =
     Inl (Exc ''TypeError'' ''list indices must be integers or slices, not str'')"
| "py_getitem (Scalar (StrV s)) key =
     Inl (Exc ''TypeError'' (''string indices must be integers, not '' @ quoted ''str''))"
| "py_getitem (Scalar v) key =
     Inl (Exc ''TypeError'' (quoted (type_name (Scalar v)) @ '' object is not subscriptable''))"

subsection \<open>validate_mapping_config (lines 23-33)\<close>

definition validate_mapping_config :: "pyval \<Rightarrow> string \<Rightarrow> exc + bool" where
  "validate_mapping_config mapping filename =
     (if \<not> isinstance_dict mapping then Inr False
      else (case py_in ''columns'' mapping of
        Inl e \<Rightarrow> Inl e
      | Inr has_columns \<Rightarrow>
          if \<not> has_columns then Inr False
          else (case py_getitem mapping ''columns'' of
            Inl e \<Rightarrow> Inl e
          | Inr columns \<Rightarrow>
              if \<not> isinstance_dict columns then Inr False
              else (case py_in ''attributes'' mapping of
                Inl e \<Rightarrow> Inl e
              | Inr has_attributes \<Rightarrow>
                  if \<not> has_attributes then Inr True
                  else (case py_getitem mapping ''attributes'' of
                    Inl e \<Rightarrow> Inl e
                  | Inr attributes \<Rightarrow>
                      if \<not> isinstance_dict attributes then Inr False else Inr True)))))"

subsection \<open>load_column_mappings (lines 10-21)\<close>

text \<open>
  What the loader asks of its surroundings: the outcome of \<open>open(mapping_file, 'r')\<close>
  (the text of the file, or the exception), and the two parsers of the libraries.
\<close>

record loader_env =
  open_file :: "string \<Rightarrow> exc + string"
  yaml_safe_load :: "string \<Rightarrow> exc + pyval"
  json_load :: "string \<Rightarrow> exc + pyval"

text \<open>The body of the \<open>try\<close> (lines 13-19).\<close>

definition load_body :: "loader_env \<Rightarrow> string \<Rightarrow> exc + pyval" where
  "load_body env mapping_file =
     (case open_file env mapping_file of
        Inl e \<Rightarrow> Inl e
      | Inr f \<Rightarrow>
          if endswith mapping_file ''.yaml'' \<or> endswith mapping_file ''.yml''
          then yaml_safe_load env f
          else if endswith mapping_file ''.json'' then json_load env f
          else Inl (Exc ''ValueError'' ''Mapping file must be either YAML or JSON''))"

text \<open>Lines 20-21: every exception of the body is raised again as a plain Exception.\<close>

definition load_column_mappings :: "loader_env \<Rightarrow> string \<Rightarrow> exc + pyval" where
  "load_column_mappings env mapping_file =
     (case load_body env mapping_file of
        Inl e \<Rightarrow> Inl (Exc ''Exception'' (''Error loading mapping file: '' @ exc_str e))
      | Inr v \<Rightarrow> Inr v)"


fun dict_items :: "pyval \<Rightarrow> (string \<times> pyval) list" where
  "dict_items (Dict kvs) = kvs"
| "dict_items _ = []"

section \<open>DataFrames as main.py uses them\<close>

text \<open>
  A DataFrame: the labels of its index, one for each row, and its columns in order,
  each a label and the cells of the column. The parsers give every column a label of its
  own (a repeated header is renamed), and a label that is no string can never equal a
  key of the mapping, so column labels are strings. The index is the default
  \<open>0, \<dots>, n - 1\<close>, except that \<open>pd.read_csv\<close> (line 97) takes the first field of each
  row for the index when the rows have one field more than the header.
\<close>

record 'c frame =
  index :: "scalar list"
  cols :: "(string \<times> 'c list) list"

text \<open>\<open>len(df)\<close> and \<open>range(n)\<close> as an index.\<close>

definition nrows :: "'c frame \<Rightarrow> nat" where
  "nrows fr = length (index fr)"

definition default_index :: "nat \<Rightarrow> scalar list" where
  "default_index n = map (\<lambda>i. IntV (int i)) [0..<n]"

text \<open>\<open>df.columns\<close>, \<open>df[label]\<close> and \<open>df[label].iloc[idx]\<close>.\<close>

definition columns :: "'c frame \<Rightarrow> string list" where
  "columns df = map fst (cols df)"

definition column :: "'c frame \<Rightarrow> string \<Rightarrow> 'c list" where
  "column df label = the (map_of (cols df) label)"

definition iloc :: "'c frame \<Rightarrow> string \<Rightarrow> nat \<Rightarrow> 'c" where
  "iloc df label idx = column df label ! idx"

text \<open>\<open>pd.DataFrame(index=range(n))\<close> (line 102).\<close>

definition DataFrame :: "nat \<Rightarrow> 'c frame" where
  "DataFrame n = \<lparr>index = default_index n, cols = []\<rparr>"

text \<open>
  \<open>new_df[label] = values\<close>: a column that is there is replaced where it stands, a new
  one is added last.
\<close>

definition setitem :: "string \<Rightarrow> 'c list \<Rightarrow> 'c frame \<Rightarrow> 'c frame" where
  "setitem label vals fr =
     (if label \<in> set (columns fr)
      then fr\<lparr>cols := map (\<lambda>(c, xs). if c = label then (c, vals) else (c, xs)) (cols fr)\<rparr>
      else fr\<lparr>cols := cols fr @ [(label, vals)]\<rparr>)"

text \<open>\<open>new_df[label] = v\<close> for a scalar: every row gets \<open>v\<close>.\<close>

definition setitem_scalar :: "string \<Rightarrow> 'c \<Rightarrow> 'c frame \<Rightarrow> 'c frame" where
  "setitem_scalar label v fr = setitem label (replicate (nrows fr) v) fr"

text \<open>\<open>new_df[label] = a_list\<close> (line 140): the list must be as long as the index.\<close>

definition setitem_list :: "string \<Rightarrow> 'c list \<Rightarrow> 'c frame \<Rightarrow> exc + 'c frame" where
  "setitem_list label vals fr =
     (if length vals \<noteq> nrows fr
      then Inl (Exc ''ValueError'' ''Length of values does not match length of index'')
      else Inr (setitem label vals fr))"

text \<open>\<open>pd.isna\<close> of a scalar that is no pandas object.\<close>

fun isna :: "scalar \<Rightarrow> bool" where
  "isna NoneV = True"
| "isna NaN = True"
| "isna NaT = True"
| "isna _ = False"

text \<open>
  \<open>if pd.notna(value):\<close> (line 131). For a Series or DataFrame \<open>pd.notna\<close> returns one,
  and its truth value raises ValueError.
\<close>

definition if_notna :: "scalar \<Rightarrow> exc + bool" where
  "if_notna v =
     (if v = PandasObj then Inl (Exc ''ValueError'' ''The truth value of a Series is ambiguous'')
      else Inr (\<not> isna v))"

text \<open>\<open>str\<close> of a scalar; an integer in decimal.\<close>

fun digits :: "nat \<Rightarrow> string" where
  "digits n = (if n < 10 then [char_of (48 + n)] else digits (n div 10) @ [char_of (48 + n mod 10)])"

definition str_int :: "int \<Rightarrow> string" where
  "str_int i = (if i < 0 then CHR ''-'' # digits (nat (- i)) else digits (nat i))"

fun py_str :: "scalar \<Rightarrow> string" where
  "py_str NoneV = ''None''"
| "py_str NaN = ''nan''"
| "py_str NaT = ''NaT''"
| "py_str (BoolV b) = (if b then ''True'' else ''False'')"
| "py_str (IntV i) = str_int i"
| "py_str (FloatV s) = s"
| "py_str (StrV s) = s"
| "py_str (TimestampV s) = s"
| "py_str PandasObj = ''<pandas object>''"

section \<open>The normalization inside process_files (lines 102-151)\<close>

text \<open>
  An entry of a row's Attributes (lines 132-135), a value of an output record, and an
  output record: the dict \<open>row_dict\<close>, its keys in column order.
\<close>

datatype attribute = Attribute (Key: pyval) (Value: string)

datatype jval = Field scalar | Attributes "attribute list"

type_synonym json_row = "(string \<times> jval) list"

text \<open>
  \<open>file_mapping.get('data_source', 'unknown')\<close> (line 105), \<open>d.items()\<close> (lines 117,
  128): on a value that is no dict Python raises AttributeError.
\<close>

fun py_get :: "pyval \<Rightarrow> string \<Rightarrow> pyval \<Rightarrow> exc + pyval" where
  "py_get (Dict kvs) key dflt = Inr (case map_of kvs key of None \<Rightarrow> dflt | Some v \<Rightarrow> v)"
| "py_get v key dflt =
     Inl (Exc ''AttributeError''
       (quoted (type_name v) @ '' object has no attribute '' @ quoted ''get''))"

fun py_items :: "pyval \<Rightarrow> exc + (string \<times> pyval) list" where
  "py_items (Dict kvs) = Inr kvs"
| "py_items v =
     Inl (Exc ''AttributeError''
       (quoted (type_name v) @ '' object has no attribute '' @ quoted ''items''))"

text \<open>
  Lines 102-115. The three timestamps are the texts the three calls of
  \<open>pd.Timestamp.now().strftime\<close> give.
\<close>

definition default_frame :: "nat \<Rightarrow> scalar \<Rightarrow> string \<Rightarrow> string \<Rightarrow> string \<Rightarrow> string \<Rightarrow> jval frame"
  where
  "default_frame n data_source created modified filename inserted =
     foldl (\<lambda>new_df (label, v). setitem_scalar label (Field v) new_df) (DataFrame n)
       [(''DataSource'', data_source),
        (''SourceCreatedDate'', StrV created),
        (''SourceModifiedDate'', StrV modified),
        (''SourceFile'', StrV filename),
        (''BQInsertedDate'', StrV inserted),
        (''Id'', NoneV),
        (''FirstName'', NoneV),
        (''LastName'', NoneV),
        (''Email'', NoneV),
        (''Mobile'', NoneV),
        (''PostCode'', NoneV)]"

text \<open>
  \<open>new_df[target_col] = df[source_col]\<close> (line 119) assigns a Series: pandas aligns it
  on the index of \<open>new_df\<close>, which is \<open>range(len(df))\<close>. With the default index on \<open>df\<close>
  the cells keep their places. Otherwise a label that stands twice in the index of \<open>df\<close>
  makes the assignment raise ValueError (with the text of pandas 1.4 and later), and else
  the row \<open>i\<close> of \<open>new_df\<close> gets the cell of the row of \<open>df\<close> whose label is the integer
  \<open>i\<close>, or NaN when no row has it.

  None is where the model ends: an index with a label that is neither an integer nor
  a string (a float or a boolean may equal an integer), and a missing label for a column
  of integers only, which pandas turns into floats, or for a column with a timestamp.
\<close>

fun plain_label :: "scalar \<Rightarrow> bool" where
  "plain_label (IntV i) = True"
| "plain_label (StrV s) = True"
| "plain_label _ = False"

fun is_int :: "scalar \<Rightarrow> bool" where
  "is_int (IntV i) = True"
| "is_int _ = False"

fun is_time :: "scalar \<Rightarrow> bool" where
  "is_time (TimestampV s) = True"
| "is_time NaT = True"
| "is_time _ = False"

text \<open>The place of the first row with this label.\<close>

fun position :: "scalar \<Rightarrow> scalar list \<Rightarrow> nat option" where
  "position label [] = None"
| "position label (x # xs) =
     (if x = label then Some 0 else map_option Suc (position label xs))"

definition reindex :: "scalar frame \<Rightarrow> scalar list \<Rightarrow> (exc + scalar list) option" where
  "reindex df series =
     (if index df = default_index (nrows df) then Some (Inr series)
      else if \<not> list_all plain_label (index df) then None
      else if \<not> distinct (index df)
        then Some (Inl (Exc ''ValueError'' ''cannot reindex on an axis with duplicate labels''))
      else if list_all (\<lambda>label. label \<in> set (index df)) (default_index (nrows df))
        then Some (Inr (map (\<lambda>label. series ! the (position label (index df)))
                         (default_index (nrows df))))
      else if (series \<noteq> [] \<and> list_all is_int series) \<or> list_ex is_time series then None
      else Some (Inr (map (\<lambda>label. case position label (index df) of
                                      None \<Rightarrow> NaN
                                    | Some p \<Rightarrow> series ! p)
                        (default_index (nrows df)))))"

text \<open>
  Lines 117-121, the loop over the items of \<open>columns\<close>. The state is \<open>new_df\<close> and the
  lines printed so far; the result is the lines printed, and \<open>new_df\<close> or the exception
  raised by line 119. The result is None where the model ends: at a target column that is
  no string (pandas then takes the key for a list of labels, a mask or an unhashable
  value), and where \<open>reindex\<close> ends.
\<close>

fun map_columns ::
  "scalar frame \<Rightarrow> string \<Rightarrow> (string \<times> pyval) list \<Rightarrow> jval frame \<times> string list
     \<Rightarrow> (string list \<times> (exc + jval frame)) option" where
  "map_columns df filename [] (new_df, printed) = Some (printed, Inr new_df)"
| "map_columns df filename ((source_col, target_col) # items) (new_df, printed) =
     (if source_col \<in> set (columns df)
      then (case target_col of
              Scalar (StrV target) \<Rightarrow>
                (case reindex df (column df source_col) of
                   None \<Rightarrow> None
                 | Some (Inl e) \<Rightarrow> Some (printed, Inl e)
                 | Some (Inr series) \<Rightarrow>
                     map_columns df filename items
                       (setitem target (map Field series) new_df, printed))
            | _ \<Rightarrow> None)
      else map_columns df filename items
             (new_df,
              printed @ [''Warning: Column '' @ source_col @ '' not found in '' @ filename]))"

text \<open>Lines 127-135, the inner loop for the row \<open>idx\<close>.\<close>

fun row_attributes ::
  "scalar frame \<Rightarrow> nat \<Rightarrow> (string \<times> pyval) list \<Rightarrow> attribute list \<Rightarrow> exc + attribute list"
  where
  "row_attributes df idx [] acc = Inr acc"
| "row_attributes df idx ((source_col, attr_name) # items) acc =
     (if source_col \<in> set (columns df)
      then (let v = iloc df source_col idx in
            case if_notna v of
              Inl e \<Rightarrow> Inl e
            | Inr True \<Rightarrow>
                row_attributes df idx items (acc @ [Attribute attr_name (py_str v)])
            | Inr False \<Rightarrow> row_attributes df idx items acc)
      else row_attributes df idx items acc)"

text \<open>
  Lines 126-136, the loop over the rows; \<open>file_mapping['attributes'].items()\<close> is
  evaluated once for each row.
\<close>

fun attributes_loop ::
  "scalar frame \<Rightarrow> pyval \<Rightarrow> nat list \<Rightarrow> attribute list list \<Rightarrow> exc + attribute list list"
  where
  "attributes_loop df file_mapping [] attributes_list = Inr attributes_list"
| "attributes_loop df file_mapping (idx # idxs) attributes_list =
     (case py_getitem file_mapping ''attributes'' of
        Inl e \<Rightarrow> Inl e
      | Inr attrs \<Rightarrow>
          (case py_items attrs of
             Inl e \<Rightarrow> Inl e
           | Inr items \<Rightarrow>
               (case row_attributes df idx items [] of
                  Inl e \<Rightarrow> Inl e
                | Inr row \<Rightarrow>
                    attributes_loop df file_mapping idxs (attributes_list @ [row]))))"

text \<open>Lines 123-138.\<close>

definition build_attributes :: "scalar frame \<Rightarrow> pyval \<Rightarrow> exc + attribute list list" where
  "build_attributes df file_mapping =
     (case py_in ''attributes'' file_mapping of
        Inl e \<Rightarrow> Inl e
      | Inr True \<Rightarrow> attributes_loop df file_mapping [0..<nrows df] []
      | Inr False \<Rightarrow> Inr (replicate (nrows df) []))"

text \<open>
  Lines 102-140: the lines printed, and \<open>new_df\<close> as it stands after line 140 or the
  exception raised on the way. None is where the model ends: a \<open>data_source\<close> that is a
  list or a dict (pandas spreads a list over the rows and aligns a dict with the index),
  and where \<open>map_columns\<close> ends.
\<close>

definition build_new_df ::
  "string \<Rightarrow> pyval \<Rightarrow> string \<times> string \<times> string \<Rightarrow> scalar frame
     \<Rightarrow> (string list \<times> (exc + jval frame)) option" where
  "build_new_df filename file_mapping now df =
     (case py_get file_mapping ''data_source'' (Scalar (StrV ''unknown'')) of
        Inl e \<Rightarrow> Some ([], Inl e)
      | Inr (Scalar data_source) \<Rightarrow>
          (case now of (created, modified, inserted) \<Rightarrow>
             (case py_getitem file_mapping ''columns'' of
                Inl e \<Rightarrow> Some ([], Inl e)
              | Inr cols_mapping \<Rightarrow>
                  (case py_items cols_mapping of
                     Inl e \<Rightarrow> Some ([], Inl e)
                   | Inr items \<Rightarrow>
                       (case map_columns df filename items
                               (default_frame (nrows df) data_source created modified
                                  filename inserted, []) of
                          None \<Rightarrow> None
                        | Some (printed, Inl e) \<Rightarrow> Some (printed, Inl e)
                        | Some (printed, Inr new_df) \<Rightarrow>
                            (case build_attributes df file_mapping of
                               Inl e \<Rightarrow> Some (printed, Inl e)
                             | Inr attributes_list \<Rightarrow>
                                 Some (printed,
                                   setitem_list ''Attributes''
                                     (map Attributes attributes_list) new_df))))))
      | Inr _ \<Rightarrow> None)"

text \<open>
  Lines 145-150 for one key of \<open>row_dict\<close>. A list is held by the column Attributes
  alone, which line 146 leaves out.
\<close>

definition null_normalize :: "string \<Rightarrow> jval \<Rightarrow> jval" where
  "null_normalize key v =
     (if key \<notin> set [''BQInsertedDate'', ''SourceFile'', ''Attributes'']
      then (case v of
              Field x \<Rightarrow>
                if x = PandasObj then Field NoneV
                else if isna x then Field NoneV
                else Field x
            | Attributes a \<Rightarrow> Attributes a)
      else v)"

text \<open>\<open>new_df.iloc[idx].to_dict()\<close> (line 144) and lines 142-151.\<close>

definition to_dict :: "'c frame \<Rightarrow> nat \<Rightarrow> (string \<times> 'c) list" where
  "to_dict fr idx = map (\<lambda>(c, xs). (c, xs ! idx)) (cols fr)"

definition json_rows_of :: "jval frame \<Rightarrow> json_row list" where
  "json_rows_of new_df =
     map (\<lambda>idx. map (\<lambda>(key, v). (key, null_normalize key v)) (to_dict new_df idx))
       [0..<nrows new_df]"

text \<open>Lines 102-151: the lines printed, and \<open>json_rows\<close> or the exception raised.\<close>

definition normalize ::
  "string \<Rightarrow> pyval \<Rightarrow> string \<times> string \<times> string \<Rightarrow> scalar frame
     \<Rightarrow> (string list \<times> (exc + json_row list)) option" where
  "normalize filename file_mapping now df =
     (case build_new_df filename file_mapping now df of
        None \<Rightarrow> None
      | Some (printed, Inl e) \<Rightarrow> Some (printed, Inl e)
      | Some (printed, Inr new_df) \<Rightarrow> Some (printed, Inr (json_rows_of new_df)))"

section \<open>process_files (lines 35-172)\<close>

text \<open>The entry of \<open>stats\<close> for one file (lines 66-74); None is Python's \<open>None\<close>.\<close>

record file_stats =
  total_rows :: nat
  processed_rows :: nat
  failed_rows :: nat
  status :: string
  error_message :: "string option"
  start_time :: "string option"
  end_time :: "string option"

text \<open>
  What the run does to its surroundings, in order: a line printed, a file handed to
  \<open>pd.read_excel\<close> or \<open>pd.read_csv\<close> (named by its file name), the rows handed to
  \<open>client.load_table_from_json\<close>.
\<close>

datatype event = Print string | ReadExcel string | ReadCsv string | LoadTable "json_row list"

text \<open>
  What the surroundings answer while one file is processed: the clock at line 72, the
  outcome of the parser (the DataFrame or the exception), the three timestamps of lines
  106, 107 and 109, the outcome of lines 102-151 where pandas is beyond the model
  (see \<open>build_new_df\<close>), the outcome of the load job of lines 158-159 (None: it
  succeeded), and the clock at line 170.
\<close>

record file_env =
  start_now :: string
  read_result :: "exc + scalar frame"
  timestamps :: "string \<times> string \<times> string"
  beyond_model :: "exc + json_row list"
  load_result :: "json_row list \<Rightarrow> exc option"
  end_now :: string

text \<open>
  Lines 102-151 as they run for one file: the lines printed, and \<open>json_rows\<close> or the
  exception raised. Where pandas is beyond the model the surroundings say what comes out.
\<close>

definition normalize_outcome ::
  "string \<Rightarrow> pyval \<Rightarrow> file_env \<Rightarrow> scalar frame \<Rightarrow> string list \<times> (exc + json_row list)" where
  "normalize_outcome filename file_mapping fe df =
     (case normalize filename file_mapping (timestamps fe) df of
        None \<Rightarrow> ([], beyond_model fe)
      | Some r \<Rightarrow> r)"

text \<open>
  The body of the \<open>try\<close> (lines 94-162): the exception it raised if any, the entry of
  \<open>stats\<close> as it stands then, and the events. Line 76 has made sure that the name ends
  in .xlsx or in .csv.
\<close>

definition try_body ::
  "string \<Rightarrow> pyval \<Rightarrow> file_env \<Rightarrow> file_stats \<Rightarrow> exc option \<times> file_stats \<times> event list" where
  "try_body filename file_mapping fe st =
     (let reading = (if endswith filename ''.xlsx'' then ReadExcel filename
                     else ReadCsv filename)
      in case read_result fe of
        Inl e \<Rightarrow> (Some e, st, [reading])
      | Inr df \<Rightarrow>
          (let st1 = st\<lparr>total_rows := nrows df\<rparr>;
               (printed, outcome) = normalize_outcome filename file_mapping fe df
           in case outcome of
             Inl e \<Rightarrow> (Some e, st1, reading # map Print printed)
           | Inr json_rows \<Rightarrow>
               (case load_result fe json_rows of
                  Some e \<Rightarrow> (Some e, st1, reading # map Print printed @ [LoadTable json_rows])
                | None \<Rightarrow>
                    (None,
                     st1\<lparr>status := ''success'', processed_rows := length json_rows\<rparr>,
                     reading # map Print printed @ [LoadTable json_rows]))))"

text \<open>
  One turn of the loop of line 63 (lines 64-170): the entry of \<open>stats\<close> for the file
  and the events, or the exception that leaves the loop. The three \<open>continue\<close> of lines
  79, 84 and 91 come before the \<open>try\<close>, so its \<open>finally\<close> does not run for them.
\<close>

definition process_file :: "pyval \<Rightarrow> string \<Rightarrow> file_env \<Rightarrow> exc + file_stats \<times> event list"
  where
  "process_file mappings filename fe =
     (let st = \<lparr>total_rows = 0, processed_rows = 0, failed_rows = 0,
                status = ''not_processed'', error_message = None,
                start_time = Some (start_now fe), end_time = None\<rparr>
      in if \<not> (endswith filename ''.xlsx'' \<or> endswith filename ''.csv'')
         then Inr (st\<lparr>status := ''skipped'',
                       error_message := Some ''Not a supported file type''\<rparr>, [])
         else (case py_in filename mappings of
            Inl e \<Rightarrow> Inl e
          | Inr False \<Rightarrow>
              Inr (st\<lparr>status := ''skipped'',
                      error_message := Some ''No mapping configuration found''\<rparr>, [])
          | Inr True \<Rightarrow>
              (case py_getitem mappings filename of
                 Inl e \<Rightarrow> Inl e
               | Inr file_mapping \<Rightarrow>
                   (case validate_mapping_config file_mapping filename of
                      Inl e \<Rightarrow> Inl e
                    | Inr False \<Rightarrow>
                        Inr (st\<lparr>status := ''failed'',
                                error_message := Some ''Invalid mapping configuration''\<rparr>, [])
                    | Inr True \<Rightarrow>
                        (case try_body filename file_mapping fe st of
                           (None, st', evs) \<Rightarrow> Inr (st'\<lparr>end_time := Some (end_now fe)\<rparr>, evs)
                         | (Some e, st', evs) \<Rightarrow>
                             Inr (st'\<lparr>status := ''failed'',
                                      error_message := Some (exc_str e),
                                      end_time := Some (end_now fe)\<rparr>,
                                  evs @ [Print (''Error processing file '' @ filename
                                                 @ '': '' @ exc_str e)]))))))"

text \<open>\<open>d[key] = v\<close> on a dict held as the list of its items.\<close>

definition dict_set :: "(string \<times> 'v) list \<Rightarrow> string \<Rightarrow> 'v \<Rightarrow> (string \<times> 'v) list" where
  "dict_set d key v =
     (if key \<in> set (map fst d) then map (\<lambda>(k, x). if k = key then (k, v) else (k, x)) d
      else d @ [(key, v)])"

text \<open>The loop of line 63 over the names \<open>os.listdir\<close> gave.\<close>

fun files_loop ::
  "pyval \<Rightarrow> (string \<times> file_env) list \<Rightarrow> (string \<times> file_stats) list \<times> event list
     \<Rightarrow> exc + (string \<times> file_stats) list \<times> event list" where
  "files_loop mappings [] acc = Inr acc"
| "files_loop mappings ((filename, fe) # files) (stats, evs) =
     (case process_file mappings filename fe of
        Inl e \<Rightarrow> Inl e
      | Inr (st, evs') \<Rightarrow> files_loop mappings files (dict_set stats filename st, evs @ evs'))"

text \<open>
  What the surroundings answer to a run: the outcome of \<open>bigquery.Client\<close> (line 40;
  None: the client is there), the answers to the loader, the outcome of \<open>os.listdir\<close>
  (line 63) with the answers for each file it names, and the outcome of
  \<open>save_statistics\<close> (line 199).
\<close>

record run_env =
  client_result :: "exc option"
  loader :: loader_env
  listdir_result :: "exc + (string \<times> file_env) list"
  save_result :: "(string \<times> file_stats) list \<Rightarrow> exc option"

definition process_files ::
  "run_env \<Rightarrow> string \<Rightarrow> exc + (string \<times> file_stats) list \<times> event list" where
  "process_files env mapping_file =
     (case client_result env of
        Some e \<Rightarrow> Inl e
      | None \<Rightarrow>
          (case load_column_mappings (loader env) mapping_file of
             Inl e \<Rightarrow> Inl e
           | Inr mappings \<Rightarrow>
               (case listdir_result env of
                  Inl e \<Rightarrow> Inl e
                | Inr files \<Rightarrow> files_loop mappings files ([], []))))"

text \<open>The exit status of \<open>main\<close> (lines 190-213), once the arguments are parsed.\<close>

definition main_exit_status :: "run_env \<Rightarrow> string \<Rightarrow> nat" where
  "main_exit_status env mapping_file =
     (case process_files env mapping_file of
        Inl e \<Rightarrow> 1
      | Inr (stats, evs) \<Rightarrow> (case save_result env stats of Some e \<Rightarrow> 1 | None \<Rightarrow> 0))"

text \<open>The event hands the file of this name to a parser.\<close>

fun reads :: "string \<Rightarrow> event \<Rightarrow> bool" where
  "reads f (ReadExcel g) = (f = g)"
| "reads f (ReadCsv g) = (f = g)"
| "reads f _ = False"

text \<open>
  A name with its ASCII capitals in lower case: what a check of the extension that
  ignores case would look at. The program has no such step.
\<close>

definition lower_char :: "char \<Rightarrow> char" where
  "lower_char c =
     (if (65::nat) \<le> of_char c \<and> of_char c \<le> (90::nat) then char_of (of_char c + (32::nat))
      else c)"

definition lower :: "string \<Rightarrow> string" where
  "lower s = map lower_char s"

text \<open>
  The \<open>try\<close> of a file raises \<open>e\<close>: the parser does, or else the normalization, or else
  the load job.
\<close>

definition try_raises :: "string \<Rightarrow> pyval \<Rightarrow> file_env \<Rightarrow> exc \<Rightarrow> bool" where
  "try_raises filename file_mapping fe e =
     (case read_result fe of
        Inl x \<Rightarrow> x = e
      | Inr df \<Rightarrow>
          (case snd (normalize_outcome filename file_mapping fe df) of
             Inl x \<Rightarrow> x = e
           | Inr json_rows \<Rightarrow> load_result fe json_rows = Some e))"

section \<open>The inputs the normalization is stated for\<close>

text \<open>
  A DataFrame is well formed when no label stands twice and every column is as long as the
  index. The parsers give such a frame, whose cells are scalars and no pandas objects,
  and in which an empty field of the file is NaN, never the empty text.
\<close>

definition well_formed :: "'c frame \<Rightarrow> bool" where
  "well_formed fr \<longleftrightarrow>
     distinct (columns fr) \<and> (\<forall>xs \<in> set (map snd (cols fr)). length xs = nrows fr)"

definition parsed_frame :: "scalar frame \<Rightarrow> bool" where
  "parsed_frame df \<longleftrightarrow>
     well_formed df
     \<and> (\<forall>xs \<in> set (map snd (cols df)). PandasObj \<notin> set xs \<and> StrV [] \<notin> set xs)"

text \<open>A value is blank: it is null, NaN (or NaT), or empty.\<close>

definition blank :: "scalar \<Rightarrow> bool" where
  "blank v \<longleftrightarrow> isna v \<or> v = StrV []"

text \<open>
  The file mappings the model of pandas covers for a given file: \<open>data_source\<close> is
  absent or a scalar, and every entry of \<open>columns\<close> whose source column the file has
  names its target by a string.
\<close>

fun is_scalar :: "pyval \<Rightarrow> bool" where
  "is_scalar (Scalar v) = True"
| "is_scalar _ = False"

fun is_str :: "pyval \<Rightarrow> bool" where
  "is_str (Scalar (StrV s)) = True"
| "is_str _ = False"

definition modelled :: "pyval \<Rightarrow> scalar frame \<Rightarrow> bool" where
  "modelled file_mapping df \<longleftrightarrow>
     (case map_of (dict_items file_mapping) ''data_source'' of
        None \<Rightarrow> True
      | Some v \<Rightarrow> is_scalar v)
     \<and> (case map_of (dict_items file_mapping) ''columns'' of
          None \<Rightarrow> True
        | Some columns_mapping \<Rightarrow>
            (\<forall>(source_col, target_col) \<in> set (dict_items columns_mapping).
               source_col \<in> set (columns df) \<longrightarrow> is_str target_col))"

text \<open>
  The DataFrame, with the default index, that holds the row \<open>idx\<close> of a frame and
  nothing else: what the parser gives for a file with this one row.
\<close>

definition take_row :: "'c frame \<Rightarrow> nat \<Rightarrow> 'c frame" where
  "take_row fr idx =
     \<lparr>index = default_index 1, cols = map (\<lambda>(c, xs). (c, [xs ! idx])) (cols fr)\<rparr>"

text \<open>
  The Attributes of the row \<open>idx\<close> as the specification words them: one entry
  \<open>{Key: attr_name, Value: str(value)}\<close> for each pair of the \<open>attributes\<close> mapping, in
  its order, whose source column the file has with a value in this row that is not
  blank; none when the file mapping has no key \<open>attributes\<close>.
\<close>

definition attributes_by_spec :: "scalar frame \<Rightarrow> pyval \<Rightarrow> nat \<Rightarrow> attribute list" where
  "attributes_by_spec df file_mapping idx =
     (case map_of (dict_items file_mapping) ''attributes'' of
        None \<Rightarrow> []
      | Some attrs \<Rightarrow>
          map (\<lambda>(source_col, attr_name). Attribute attr_name (py_str (iloc df source_col idx)))
            (filter (\<lambda>(source_col, attr_name).
                source_col \<in> set (columns df) \<and> \<not> blank (iloc df source_col idx))
              (dict_items attrs)))"

text \<open>The fields that line 110-115 set to None.\<close>

definition core_fields :: "string list" where
  "core_fields = [''Id'', ''FirstName'', ''LastName'', ''Email'', ''Mobile'', ''PostCode'']"

text \<open>
  The entries of \<open>columns\<close> whose source column the file has, the warnings line 121
  prints for the others, and a file mapping without those others.
\<close>

definition present_entries :: "scalar frame \<Rightarrow> (string \<times> pyval) list \<Rightarrow> (string \<times> pyval) list"
  where
  "present_entries df items =
     filter (\<lambda>(source_col, target_col). source_col \<in> set (columns df)) items"

definition absent_warnings :: "scalar frame \<Rightarrow> string \<Rightarrow> (string \<times> pyval) list \<Rightarrow> string list"
  where
  "absent_warnings df filename items =
     map (\<lambda>(source_col, target_col).
            ''Warning: Column '' @ source_col @ '' not found in '' @ filename)
       (filter (\<lambda>(source_col, target_col). source_col \<notin> set (columns df)) items)"

definition without_absent :: "scalar frame \<Rightarrow> pyval \<Rightarrow> pyval" where
  "without_absent df file_mapping =
     (case map_of (dict_items file_mapping) ''columns'' of
        Some (Dict items) \<Rightarrow>
          Dict (dict_set (dict_items file_mapping) ''columns'' (Dict (present_entries df items)))
      | _ \<Rightarrow> file_mapping)"

section \<open>Example inputs\<close>

definition example_loader_env :: loader_env where
  "example_loader_env =
     \<lparr>open_file = (\<lambda>p. Inr ''- not a mapping''),
      yaml_safe_load = (\<lambda>f. Inl (Exc ''ScannerError'' ''mapping values are not allowed here'')),
      json_load = (\<lambda>f. Inl (Exc ''JSONDecodeError'' ''Expecting value: line 1 column 1 (char 0)''))\<rparr>"

text \<open>A file of two rows with the header \<open>id,name,city\<close>.\<close>

definition example_df :: "scalar frame" where
  "example_df =
     \<lparr>index = [IntV 0, IntV 1],
      cols = [(''id'', [IntV 7, IntV (- 20)]),
              (''name'', [StrV ''Ann'', NaN]),
              (''city'', [NaN, StrV ''Oslo''])]\<rparr>"

definition example_mapping :: pyval where
  "example_mapping =
     Dict [(''columns'',
            Dict [(''id'', Scalar (StrV ''Id'')),
                  (''name'', Scalar (StrV ''FirstName'')),
                  (''Email2'', Scalar (StrV ''Email''))]),
           (''attributes'',
            Dict [(''city'', Scalar (StrV ''City'')),
                  (''id'', Scalar (StrV ''Ident'')),
                  (''zip'', Scalar (StrV ''Zip''))])]"

definition example_now :: "string \<times> string \<times> string" where
  "example_now = (''2024-05-01 10:00:00'', ''2024-05-01 10:00:00'', ''2024-05-01 10:00:01'')"

definition example_entries :: "(string \<times> pyval) list" where
  "example_entries =
     [(''a.csv'', example_mapping),
      (''d.csv'', Dict [(''columns'', List [Scalar (StrV ''id'')])]),
      (''DATA.CSV'', example_mapping),
      (''e.csv'', Dict [(''columns'', Dict [])]),
      (''f.xlsx'', Dict [(''columns'', Dict [])])]"

definition example_mappings :: pyval where
  "example_mappings = Dict example_entries"

definition example_file_env :: file_env where
  "example_file_env =
     \<lparr>start_now = ''2024-05-01T10:00:00.000000'',
      read_result = Inr example_df,
      timestamps = example_now,
      beyond_model = Inl (Exc ''ValueError'' ''Length of values does not match length of index''),
      load_result = (\<lambda>rows. None),
      end_now = ''2024-05-01T10:00:02.000000''\<rparr>"

definition example_unreadable :: file_env where
  "example_unreadable =
     example_file_env\<lparr>read_result := Inl (Exc ''ParserError'' ''Error tokenizing data'')\<rparr>"

definition example_no_table :: file_env where
  "example_no_table =
     example_file_env
       \<lparr>read_result := Inr \<lparr>index = [], cols = [(''id'', [])]\<rparr>,
        load_result := (\<lambda>rows. Some (Exc ''NotFound'' ''404 Not found: Table''))\<rparr>"

definition example_files :: "(string \<times> file_env) list" where
  "example_files =
     [(''b.txt'', example_file_env),
      (''c.csv'', example_file_env),
      (''d.csv'', example_file_env),
      (''DATA.CSV'', example_file_env),
      (''e.csv'', example_unreadable),
      (''f.xlsx'', example_no_table)]"

definition example_run_env :: run_env where
  "example_run_env =
     \<lparr>client_result = None,
      loader = \<lparr>open_file = (\<lambda>p. Inr ''a.csv: ...''),
                yaml_safe_load = (\<lambda>f. Inr example_mappings),
                json_load = (\<lambda>f. Inr example_mappings)\<rparr>,
      listdir_result = Inr example_files,
      save_result = (\<lambda>stats. None)\<rparr>"

text \<open>The same run when the directory is not there, and when the mapping file is empty.\<close>

definition example_no_directory :: run_env where
  "example_no_directory =
     example_run_env\<lparr>listdir_result :=
       Inl (Exc ''FileNotFoundError'' ''[Errno 2] No such file or directory'')\<rparr>"

definition example_empty_document :: run_env where
  "example_empty_document =
     example_run_env\<lparr>loader := \<lparr>open_file = (\<lambda>p. Inr []),
                                 yaml_safe_load = (\<lambda>f. Inr (Scalar NoneV)),
                                 json_load = (\<lambda>f. Inr (Scalar NoneV))\<rparr>\<rparr>"

text \<open>What the run of \<open>example_run_env\<close> returns: the statistics and the events.\<close>

definition example_stats :: "(string \<times> file_stats) list" where
  "example_stats =
     [(''b.txt'',
       \<lparr>total_rows = 0, processed_rows = 0, failed_rows = 0, status = ''skipped'',
        error_message = Some ''Not a supported file type'',
        start_time = Some ''2024-05-01T10:00:00.000000'', end_time = None\<rparr>),
      (''c.csv'',
       \<lparr>total_rows = 0, processed_rows = 0, failed_rows = 0, status = ''skipped'',
        error_message = Some ''No mapping configuration found'',
        start_time = Some ''2024-05-01T10:00:00.000000'', end_time = None\<rparr>),
      (''d.csv'',
       \<lparr>total_rows = 0, processed_rows = 0, failed_rows = 0, status = ''failed'',
        error_message = Some ''Invalid mapping configuration'',
        start_time = Some ''2024-05-01T10:00:00.000000'', end_time = None\<rparr>),
      (''DATA.CSV'',
       \<lparr>total_rows = 0, processed_rows = 0, failed_rows = 0, status = ''skipped'',
        error_message = Some ''Not a supported file type'',
        start_time = Some ''2024-05-01T10:00:00.000000'', end_time = None\<rparr>),
      (''e.csv'',
       \<lparr>total_rows = 0, processed_rows = 0, failed_rows = 0, status = ''failed'',
        error_message = Some ''Error tokenizing data'',
        start_time = Some ''2024-05-01T10:00:00.000000'',
        end_time = Some ''2024-05-01T10:00:02.000000''\<rparr>),
      (''f.xlsx'',
       \<lparr>total_rows = 0, processed_rows = 0, failed_rows = 0, status = ''failed'',
        error_message = Some ''404 Not found: Table'',
        start_time = Some ''2024-05-01T10:00:00.000000'',
        end_time = Some ''2024-05-01T10:00:02.000000''\<rparr>)]"

definition example_events :: "event list" where
  "example_events =
     [ReadCsv ''e.csv'',
      Print ''Error processing file e.csv: Error tokenizing data'',
      ReadExcel ''f.xlsx'',
      LoadTable [],
      Print ''Error processing file f.xlsx: 404 Not found: Table'']"

text \<open>
  What lines 102-151 give for \<open>example_df\<close> under \<open>example_mapping\<close>: the line printed,
  \<open>new_df\<close> after line 140, and \<open>json_rows\<close>.
\<close>

definition example_printed :: "string list" where
  "example_printed = [''Warning: Column Email2 not found in a.csv'']"

definition example_new_df :: "jval frame" where
  "example_new_df =
     \<lparr>index = [IntV 0, IntV 1],
      cols =
        [(''DataSource'', [Field (StrV ''unknown''), Field (StrV ''unknown'')]),
         (''SourceCreatedDate'',
          [Field (StrV ''2024-05-01 10:00:00''), Field (StrV ''2024-05-01 10:00:00'')]),
         (''SourceModifiedDate'',
          [Field (StrV ''2024-05-01 10:00:00''), Field (StrV ''2024-05-01 10:00:00'')]),
         (''SourceFile'', [Field (StrV ''a.csv''), Field (StrV ''a.csv'')]),
         (''BQInsertedDate'',
          [Field (StrV ''2024-05-01 10:00:01''), Field (StrV ''2024-05-01 10:00:01'')]),
         (''Id'', [Field (IntV 7), Field (IntV (- 20))]),
         (''FirstName'', [Field (StrV ''Ann''), Field NaN]),
         (''LastName'', [Field NoneV, Field NoneV]),
         (''Email'', [Field NoneV, Field NoneV]),
         (''Mobile'', [Field NoneV, Field NoneV]),
         (''PostCode'', [Field NoneV, Field NoneV]),
         (''Attributes'',
          [Attributes [Attribute (Scalar (StrV ''Ident'')) ''7''],
           Attributes [Attribute (Scalar (StrV ''City'')) ''Oslo'',
                       Attribute (Scalar (StrV ''Ident'')) ''-20'']])]\<rparr>"

definition example_rows :: "json_row list" where
  "example_rows =
     [[(''DataSource'', Field (StrV ''unknown'')),
       (''SourceCreatedDate'', Field (StrV ''2024-05-01 10:00:00'')),
       (''SourceModifiedDate'', Field (StrV ''2024-05-01 10:00:00'')),
       (''SourceFile'', Field (StrV ''a.csv'')),
       (''BQInsertedDate'', Field (StrV ''2024-05-01 10:00:01'')),
       (''Id'', Field (IntV 7)),
       (''FirstName'', Field (StrV ''Ann'')),
       (''LastName'', Field NoneV),
       (''Email'', Field NoneV),
       (''Mobile'', Field NoneV),
       (''PostCode'', Field NoneV),
       (''Attributes'', Attributes [Attribute (Scalar (StrV ''Ident'')) ''7''])],
      [(''DataSource'', Field (StrV ''unknown'')),
       (''SourceCreatedDate'', Field (StrV ''2024-05-01 10:00:00'')),
       (''SourceModifiedDate'', Field (StrV ''2024-05-01 10:00:00'')),
       (''SourceFile'', Field (StrV ''a.csv'')),
       (''BQInsertedDate'', Field (StrV ''2024-05-01 10:00:01'')),
       (''Id'', Field (IntV (- 20))),
       (''FirstName'', Field NoneV),
       (''LastName'', Field NoneV),
       (''Email'', Field NoneV),
       (''Mobile'', Field NoneV),
       (''PostCode'', Field NoneV),
       (''Attributes'',
        Attributes [Attribute (Scalar (StrV ''City'')) ''Oslo'',
                    Attribute (Scalar (StrV ''Ident'')) ''-20''])]]"

text \<open>
  A CSV file whose rows have one field more than its header,
  \<^verbatim>\<open>id,name\<close> / \<^verbatim>\<open>1,A1,Ann\<close> / \<^verbatim>\<open>0,B2,Bob\<close>: \<open>pd.read_csv\<close> takes the first field of each
  row for the index. The same file with the label 1 on both rows. A mapping of \<open>id\<close> to
  Id with \<open>name\<close> as an attribute.
\<close>

definition example_shifted_df :: "scalar frame" where
  "example_shifted_df =
     \<lparr>index = [IntV 1, IntV 0],
      cols = [(''id'', [StrV ''A1'', StrV ''B2'']),
              (''name'', [StrV ''Ann'', StrV ''Bob''])]\<rparr>"

definition example_twice_df :: "scalar frame" where
  "example_twice_df =
     \<lparr>index = [IntV 1, IntV 1],
      cols = [(''id'', [StrV ''A1'', StrV ''B2'']),
              (''name'', [StrV ''Ann'', StrV ''Bob''])]\<rparr>"

definition example_id_mapping :: pyval where
  "example_id_mapping =
     Dict [(''columns'', Dict [(''id'', Scalar (StrV ''Id''))]),
           (''attributes'', Dict [(''name'', Scalar (StrV ''Name''))])]"

text \<open>A mapping whose \<open>data_source\<close> is the empty text, and a file of one row.\<close>

definition example_blank_mapping :: pyval where
  "example_blank_mapping =
     Dict [(''data_source'', Scalar (StrV [])), (''columns'', Dict [])]"

definition example_one_row_df :: "scalar frame" where
  "example_one_row_df = \<lparr>index = [IntV 0], cols = [(''id'', [IntV 7])]\<rparr>"

text \<open>
  What lines 102-151 give for \<open>example_shifted_df\<close> under \<open>example_id_mapping\<close>, and for
  \<open>example_one_row_df\<close> under \<open>example_blank_mapping\<close>.
\<close>

definition example_shifted_rows :: "json_row list" where
  "example_shifted_rows =
     [[(''DataSource'', Field (StrV ''unknown'')),
       (''SourceCreatedDate'', Field (StrV ''2024-05-01 10:00:00'')),
       (''SourceModifiedDate'', Field (StrV ''2024-05-01 10:00:00'')),
       (''SourceFile'', Field (StrV ''a.csv'')),
       (''BQInsertedDate'', Field (StrV ''2024-05-01 10:00:01'')),
       (''Id'', Field (StrV ''B2'')),
       (''FirstName'', Field NoneV),
       (''LastName'', Field NoneV),
       (''Email'', Field NoneV),
       (''Mobile'', Field NoneV),
       (''PostCode'', Field NoneV),
       (''Attributes'', Attributes [Attribute (Scalar (StrV ''Name'')) ''Ann''])],
      [(''DataSource'', Field (StrV ''unknown'')),
       (''SourceCreatedDate'', Field (StrV ''2024-05-01 10:00:00'')),
       (''SourceModifiedDate'', Field (StrV ''2024-05-01 10:00:00'')),
       (''SourceFile'', Field (StrV ''a.csv'')),
       (''BQInsertedDate'', Field (StrV ''2024-05-01 10:00:01'')),
       (''Id'', Field (StrV ''A1'')),
       (''FirstName'', Field NoneV),
       (''LastName'', Field NoneV),
       (''Email'', Field NoneV),
       (''Mobile'', Field NoneV),
       (''PostCode'', Field NoneV),
       (''Attributes'', Attributes [Attribute (Scalar (StrV ''Name'')) ''Bob''])]]"

definition example_blank_rows :: "json_row list" where
  "example_blank_rows =
     [[(''DataSource'', Field (StrV [])),
       (''SourceCreatedDate'', Field (StrV ''2024-05-01 10:00:00'')),
       (''SourceModifiedDate'', Field (StrV ''2024-05-01 10:00:00'')),
       (''SourceFile'', Field (StrV ''a.csv'')),
       (''BQInsertedDate'', Field (StrV ''2024-05-01 10:00:01'')),
       (''Id'', Field NoneV),
       (''FirstName'', Field NoneV),
       (''LastName'', Field NoneV),
       (''Email'', Field NoneV),
       (''Mobile'', Field NoneV),
       (''PostCode'', Field NoneV),
       (''Attributes'', Attributes [])]]"
section \<open>The mapping validator\<close>

lemma py_in_dict_iff: "py_in key (Dict kvs) = Inr (map_of kvs key \<noteq> None)"
  by (simp add: map_of_eq_None_iff)

text \<open>
  C3. For every value, also one that is no mapping (a list, a string, null),
  \<open>validate_mapping_config\<close> returns and raises nothing. It returns False exactly when the
  value is not a mapping, or it has no key \<open>columns\<close>, or the value under \<open>columns\<close> is
  not a mapping, or it has a key \<open>attributes\<close> whose value is not a mapping; in every
  other case (an empty \<open>columns\<close> mapping too) it returns True. The file name plays no
  part in the result.
\<close>

theorem validate_mapping_config_result:
  "validate_mapping_config mapping filename =
     Inr (\<not> (\<not> isinstance_dict mapping
            \<or> map_of (dict_items mapping) ''columns'' = None
            \<or> (\<exists>c. map_of (dict_items mapping) ''columns'' = Some c \<and> \<not> isinstance_dict c)
            \<or> (\<exists>a. map_of (dict_items mapping) ''attributes'' = Some a \<and> \<not> isinstance_dict a)))"
proof (cases mapping)
  case (Dict kvs)
  show ?thesis
  proof (cases "map_of kvs ''columns''")
    case None
    with Dict show ?thesis
      by (simp add: validate_mapping_config_def py_in_dict_iff del: py_in.simps)
  next
    case (Some c)
    show ?thesis
    proof (cases "map_of kvs ''attributes''")
      case None
      with Dict Some show ?thesis
        by (simp add: validate_mapping_config_def py_in_dict_iff del: py_in.simps)
    next
      case (Some a)
      with Dict \<open>map_of kvs ''columns'' = Some c\<close> show ?thesis
        by (simp add: validate_mapping_config_def py_in_dict_iff del: py_in.simps)
    qed
  qed
qed (simp_all add: validate_mapping_config_def)

theorem validate_mapping_config_result_witness:
  "validate_mapping_config (Dict [(''columns'', Dict [])]) ''a.csv'' = Inr True
   \<and> validate_mapping_config (Dict [(''columns'', List [])]) ''d.csv'' = Inr False
   \<and> validate_mapping_config (Scalar NoneV) ''a.csv'' = Inr False
   \<and> validate_mapping_config
         (Dict [(''columns'', Dict []), (''attributes'', Scalar (StrV ''x''))]) ''a.csv''
       = Inr False"
  using validate_mapping_config_result [of "Dict [(''columns'', Dict [])]" "''a.csv''"]
    validate_mapping_config_result [of "Dict [(''columns'', List [])]" "''d.csv''"]
    validate_mapping_config_result [of "Scalar NoneV" "''a.csv''"]
    validate_mapping_config_result
      [of "Dict [(''columns'', Dict []), (''attributes'', Scalar (StrV ''x''))]" "''a.csv''"]
  by simp

section \<open>The mapping loader\<close>

text \<open>
  C9, as the claim states it, fails. A mapping file whose suffix is neither YAML nor JSON
  does not give an error of a kind of its own: the ValueError of line 19 is raised inside
  the \<open>try\<close>, so line 21 wraps it as it wraps a parse error. Both failures are a plain
  Exception whose text starts \<open>Error loading mapping file: \<close>.
\<close>

theorem load_column_mappings_format_error_counterexample:
  "load_column_mappings example_loader_env ''mapping.txt''
     = Inl (Exc ''Exception''
         ''Error loading mapping file: Mapping file must be either YAML or JSON'')
   \<and> load_column_mappings example_loader_env ''mapping.json''
     = Inl (Exc ''Exception''
         ''Error loading mapping file: Expecting value: line 1 column 1 (char 0)'')
   \<and> exc_class (projl (load_column_mappings example_loader_env ''mapping.txt''))
     = exc_class (projl (load_column_mappings example_loader_env ''mapping.json''))"
  by (simp add: load_column_mappings_def load_body_def example_loader_env_def endswith_def)

text \<open>
  C9, amended. Every failure of \<open>load_column_mappings\<close> is a plain Exception whose text
  is \<open>Error loading mapping file: \<close> followed by the text of the exception raised in the
  body: the one of \<open>open\<close> when the file cannot be opened, \<open>Mapping file must be either
  YAML or JSON\<close> when the file opens and its suffix is none of .yaml, .yml, .json, and
  the parser's when the document cannot be parsed.
\<close>

theorem load_column_mappings_failures:
  "(open_file env mapping_file = Inl e \<longrightarrow>
      load_column_mappings env mapping_file
        = Inl (Exc ''Exception'' (''Error loading mapping file: '' @ exc_str e)))
   \<and> (open_file env mapping_file = Inr f
        \<and> \<not> endswith mapping_file ''.yaml'' \<and> \<not> endswith mapping_file ''.yml''
        \<and> \<not> endswith mapping_file ''.json'' \<longrightarrow>
      load_column_mappings env mapping_file
        = Inl (Exc ''Exception''
            ''Error loading mapping file: Mapping file must be either YAML or JSON''))
   \<and> (open_file env mapping_file = Inr f
        \<and> (endswith mapping_file ''.yaml'' \<or> endswith mapping_file ''.yml'')
        \<and> yaml_safe_load env f = Inl e \<longrightarrow>
      load_column_mappings env mapping_file
        = Inl (Exc ''Exception'' (''Error loading mapping file: '' @ exc_str e)))
   \<and> (open_file env mapping_file = Inr f
        \<and> \<not> endswith mapping_file ''.yaml'' \<and> \<not> endswith mapping_file ''.yml''
        \<and> endswith mapping_file ''.json'' \<and> json_load env f = Inl e \<longrightarrow>
      load_column_mappings env mapping_file
        = Inl (Exc ''Exception'' (''Error loading mapping file: '' @ exc_str e)))
   \<and> (\<forall>x. load_column_mappings env mapping_file = Inl x \<longrightarrow>
        exc_class x = ''Exception''
        \<and> (\<exists>d. load_body env mapping_file = Inl d
             \<and> exc_str x = ''Error loading mapping file: '' @ exc_str d))"
  by (auto simp: load_column_mappings_def load_body_def split: sum.splits)

theorem load_column_mappings_failures_witness:
  "open_file example_loader_env ''mapping.yml'' = Inr ''- not a mapping''
   \<and> endswith ''mapping.yml'' ''.yml''
   \<and> yaml_safe_load example_loader_env ''- not a mapping''
       = Inl (Exc ''ScannerError'' ''mapping values are not allowed here'')
   \<and> load_column_mappings example_loader_env ''mapping.yml''
       = Inl (Exc ''Exception''
           ''Error loading mapping file: mapping values are not allowed here'')"
  using load_column_mappings_failures
    [of example_loader_env "''mapping.yml''"
      "Exc ''ScannerError'' ''mapping values are not allowed here''" "''- not a mapping''"]
  by (simp add: example_loader_env_def endswith_def)

section \<open>The loop over the files\<close>

lemma map_of_dict_set:
  "map_of (dict_set d key v) k = (if k = key then Some v else map_of d k)"
proof (cases "key \<in> set (map fst d)")
  case True
  have "map_of (map (\<lambda>(k', x). if k' = key then (k', v) else (k', x)) d) k
        = (if k = key then (if key \<in> set (map fst d) then Some v else None) else map_of d k)"
    by (induction d) (auto simp: rev_image_eqI)
  with True show ?thesis by (simp add: dict_set_def)
next
  case False
  then have "map_of d key = None" by (simp add: map_of_eq_None_iff)
  with False show ?thesis by (auto simp: dict_set_def map_add_def split: option.splits)
qed

lemma files_loop_other:
  "files_loop mappings files (stats0, evs0) = Inr (stats, evs) \<Longrightarrow>
   filename \<notin> set (map fst files) \<Longrightarrow> map_of stats filename = map_of stats0 filename"
proof (induction files arbitrary: stats0 evs0)
  case Nil
  then show ?case by simp
next
  case (Cons p files)
  obtain g fe where p: "p = (g, fe)" by (cases p)
  from Cons.prems obtain st ev where
    pf: "process_file mappings g fe = Inr (st, ev)" and
    rest: "files_loop mappings files (dict_set stats0 g st, evs0 @ ev) = Inr (stats, evs)"
    by (auto simp: p split: sum.splits)
  from Cons.prems(2) have "filename \<noteq> g" "filename \<notin> set (map fst files)" by (auto simp: p)
  with Cons.IH [OF rest] show ?case by (simp add: map_of_dict_set)
qed

lemma files_loop_entry:
  "files_loop mappings files (stats0, evs0) = Inr (stats, evs) \<Longrightarrow>
   distinct (map fst files) \<Longrightarrow> (filename, fe) \<in> set files \<Longrightarrow>
   \<exists>st ev. process_file mappings filename fe = Inr (st, ev) \<and> map_of stats filename = Some st"
proof (induction files arbitrary: stats0 evs0)
  case Nil
  then show ?case by simp
next
  case (Cons p files)
  obtain g ge where p: "p = (g, ge)" by (cases p)
  from Cons.prems(1) obtain st ev where
    pf: "process_file mappings g ge = Inr (st, ev)" and
    rest: "files_loop mappings files (dict_set stats0 g st, evs0 @ ev) = Inr (stats, evs)"
    by (auto simp: p split: sum.splits)
  show ?case
  proof (cases "filename = g")
    case True
    from Cons.prems(2) have notin: "filename \<notin> set (map fst files)" using True by (simp add: p)
    with Cons.prems(3) have "fe = ge" using True by (auto simp: p rev_image_eqI)
    moreover from files_loop_other [OF rest notin] have "map_of stats filename = Some st"
      using True by (simp add: map_of_dict_set)
    ultimately show ?thesis using pf True by auto
  next
    case False
    with Cons.prems(3) have "(filename, fe) \<in> set files" by (simp add: p)
    moreover from Cons.prems(2) have "distinct (map fst files)" by simp
    ultimately show ?thesis using Cons.IH [OF rest] by blast
  qed
qed

lemma try_body_reads:
  "try_body g fm fe st = (r, st', ev) \<Longrightarrow> x \<in> set ev \<Longrightarrow> reads f x \<Longrightarrow> f = g"
  by (auto simp: try_body_def Let_def normalize_outcome_def split: sum.splits option.splits prod.splits if_splits)

lemma process_file_reads:
  "process_file mappings g fe = Inr (st, ev) \<Longrightarrow> x \<in> set ev \<Longrightarrow> reads f x \<Longrightarrow> f = g"
  by (auto simp: process_file_def Let_def split: sum.splits option.splits prod.splits if_splits bool.splits
      dest: try_body_reads)

lemma files_loop_events:
  "files_loop mappings files (stats0, evs0) = Inr (stats, evs) \<Longrightarrow> x \<in> set evs \<Longrightarrow>
   x \<in> set evs0 \<or> (\<exists>g fe st ev. (g, fe) \<in> set files \<and> process_file mappings g fe = Inr (st, ev) \<and> x \<in> set ev)"
proof (induction files arbitrary: stats0 evs0)
  case Nil
  then show ?case by simp
next
  case (Cons p files)
  obtain g ge where p: "p = (g, ge)" by (cases p)
  from Cons.prems(1) obtain st ev where
    pf: "process_file mappings g ge = Inr (st, ev)" and
    rest: "files_loop mappings files (dict_set stats0 g st, evs0 @ ev) = Inr (stats, evs)"
    by (auto simp: p split: sum.splits)
  from Cons.IH [OF rest Cons.prems(2)] pf show ?case
    by (auto simp: p)
qed

lemma process_files_loop:
  "process_files env mapping_file = Inr r \<Longrightarrow>
   load_column_mappings (loader env) mapping_file = Inr mappings \<Longrightarrow>
   listdir_result env = Inr files \<Longrightarrow> files_loop mappings files ([], []) = Inr r"
  by (simp add: process_files_def split: option.splits)

lemma files_loop_no_reads:
  assumes loop: "files_loop mappings files ([], []) = Inr (stats, evs)"
    and names: "distinct (map fst files)"
    and listed: "(filename, fe) \<in> set files"
    and quiet: "process_file mappings filename fe = Inr (st, [])"
  shows "filter (reads filename) evs = []"
proof -
  have "\<not> reads filename x" if x: "x \<in> set evs" for x
  proof
    assume r: "reads filename x"
    from files_loop_events [OF loop x] obtain g ge st' ev where
      g: "(g, ge) \<in> set files" and pf: "process_file mappings g ge = Inr (st', ev)"
      and xev: "x \<in> set ev"
      by auto
    from process_file_reads [OF pf xev r] have "filename = g" .
    with names listed g have "ge = fe" by (auto dest: eq_key_imp_eq_value)
    with pf quiet \<open>filename = g\<close> xev show False by simp
  qed
  then show ?thesis by (simp add: filter_empty_conv)
qed

lemma example_load:
  "load_column_mappings (loader example_run_env) ''mapping.yaml'' = Inr example_mappings"
  by (simp add: load_column_mappings_def load_body_def example_run_env_def endswith_def)

lemma example_fields:
  "client_result example_run_env = None"
  "listdir_result example_run_env = Inr example_files"
  by (simp_all add: example_run_env_def)

lemma example_run:
  "process_files example_run_env ''mapping.yaml'' = Inr (example_stats, example_events)"
  by (simp add: process_files_def example_load example_fields)
     (simp add: example_files_def example_mappings_def example_entries_def
       example_unreadable_def example_no_table_def process_file_def
       endswith_def validate_mapping_config_def dict_set_def example_file_env_def try_body_def
       normalize_outcome_def normalize_def build_new_df_def default_frame_def setitem_scalar_def setitem_def
       DataFrame_def columns_def build_attributes_def setitem_list_def json_rows_of_def
       nrows_def default_index_def
       example_stats_def example_events_def)

text \<open>
  C4. For every file that \<open>process_files\<close> finds in the directory: when its name ends in
  neither .xlsx nor .csv, its entry ends with the status \<open>skipped\<close> and the message
  \<open>Not a supported file type\<close>, and the file is handed to no parser; otherwise, when the
  mapping document has no entry for the name, it ends \<open>skipped\<close> with
  \<open>No mapping configuration found\<close>; otherwise, when \<open>validate_mapping_config\<close> returns
  False for its mapping, it ends \<open>failed\<close> with \<open>Invalid mapping configuration\<close>, and
  the file is handed to no parser.
\<close>

theorem process_files_early_exits:
  assumes run: "process_files env mapping_file = Inr (stats, evs)"
    and doc: "load_column_mappings (loader env) mapping_file = Inr mappings"
    and dir: "listdir_result env = Inr files"
    and names: "distinct (map fst files)"
    and listed: "(filename, fe) \<in> set files"
  shows "\<exists>st. map_of stats filename = Some st
     \<and> (\<not> (endswith filename ''.xlsx'' \<or> endswith filename ''.csv'') \<longrightarrow>
          status st = ''skipped'' \<and> error_message st = Some ''Not a supported file type''
          \<and> filter (reads filename) evs = [])
     \<and> ((endswith filename ''.xlsx'' \<or> endswith filename ''.csv'')
          \<and> py_in filename mappings = Inr False \<longrightarrow>
          status st = ''skipped'' \<and> error_message st = Some ''No mapping configuration found''
          \<and> filter (reads filename) evs = [])
     \<and> (\<forall>file_mapping.
          (endswith filename ''.xlsx'' \<or> endswith filename ''.csv'')
          \<and> py_in filename mappings = Inr True
          \<and> py_getitem mappings filename = Inr file_mapping
          \<and> validate_mapping_config file_mapping filename = Inr False \<longrightarrow>
          status st = ''failed'' \<and> error_message st = Some ''Invalid mapping configuration''
          \<and> filter (reads filename) evs = [])"
proof -
  note loop = process_files_loop [OF run doc dir]
  from files_loop_entry [OF loop names listed] obtain st ev where
    pf: "process_file mappings filename fe = Inr (st, ev)"
    and st: "map_of stats filename = Some st"
    by blast
  have quiet: "filter (reads filename) evs = []" if "ev = []"
    using files_loop_no_reads [OF loop names listed] pf that by simp
  have 1: "status st = ''skipped'' \<and> error_message st = Some ''Not a supported file type''
      \<and> ev = []"
    if "\<not> (endswith filename ''.xlsx'' \<or> endswith filename ''.csv'')"
    using pf that by (auto simp: process_file_def)
  have 2: "status st = ''skipped'' \<and> error_message st = Some ''No mapping configuration found''
      \<and> ev = []"
    if "endswith filename ''.xlsx'' \<or> endswith filename ''.csv''"
      "py_in filename mappings = Inr False"
    using pf that by (auto simp: process_file_def)
  have 3: "status st = ''failed'' \<and> error_message st = Some ''Invalid mapping configuration''
      \<and> ev = []"
    if "endswith filename ''.xlsx'' \<or> endswith filename ''.csv''"
      "py_in filename mappings = Inr True" "py_getitem mappings filename = Inr file_mapping"
      "validate_mapping_config file_mapping filename = Inr False" for file_mapping
    using pf that by (auto simp: process_file_def)
  from st 1 2 3 quiet show ?thesis by blast
qed

theorem process_files_early_exits_witness:
  "process_files example_run_env ''mapping.yaml'' = Inr (example_stats, example_events)
   \<and> load_column_mappings (loader example_run_env) ''mapping.yaml'' = Inr example_mappings
   \<and> listdir_result example_run_env = Inr example_files
   \<and> distinct (map fst example_files)
   \<and> (''d.csv'', example_file_env) \<in> set example_files
   \<and> endswith ''d.csv'' ''.csv''
   \<and> py_in ''d.csv'' example_mappings = Inr True
   \<and> py_getitem example_mappings ''d.csv'' = Inr (Dict [(''columns'', List [Scalar (StrV ''id'')])])
   \<and> validate_mapping_config (Dict [(''columns'', List [Scalar (StrV ''id'')])]) ''d.csv''
       = Inr False
   \<and> (\<exists>st. map_of example_stats ''d.csv'' = Some st \<and> status st = ''failed''
        \<and> error_message st = Some ''Invalid mapping configuration'')
   \<and> filter (reads ''d.csv'') example_events = []"
proof -
  have h: "listdir_result example_run_env = Inr example_files"
    "distinct (map fst example_files)"
    "(''d.csv'', example_file_env) \<in> set example_files"
    by (simp_all add: example_fields example_files_def)
  have d: "endswith ''d.csv'' ''.csv''"
    "py_in ''d.csv'' example_mappings = Inr True"
    "py_getitem example_mappings ''d.csv'' = Inr (Dict [(''columns'', List [Scalar (StrV ''id'')])])"
    "validate_mapping_config (Dict [(''columns'', List [Scalar (StrV ''id'')])]) ''d.csv''
       = Inr False"
    by (simp_all add: endswith_def example_mappings_def example_entries_def
        validate_mapping_config_def)
  from process_files_early_exits [OF example_run example_load h] d
  show ?thesis using example_run example_load h by auto
qed

text \<open>
  C10. The check of the extension distinguishes capitals from small letters: a file whose
  name ends in .xlsx or .csv only once its capitals are made small (\<open>DATA.CSV\<close>) ends
  \<open>skipped\<close> with the message \<open>Not a supported file type\<close>, whatever the mapping
  document holds, an entry for that very name too.
\<close>

theorem process_files_extension_case_sensitive:
  assumes run: "process_files env mapping_file = Inr (stats, evs)"
    and doc: "load_column_mappings (loader env) mapping_file = Inr mappings"
    and dir: "listdir_result env = Inr files"
    and names: "distinct (map fst files)"
    and listed: "(filename, fe) \<in> set files"
    and differs: "\<not> endswith filename ''.xlsx''" "\<not> endswith filename ''.csv''"
    and folded: "endswith (lower filename) ''.xlsx'' \<or> endswith (lower filename) ''.csv''"
  shows "\<exists>st. map_of stats filename = Some st \<and> status st = ''skipped''
     \<and> error_message st = Some ''Not a supported file type''"
proof -
  note loop = process_files_loop [OF run doc dir]
  from files_loop_entry [OF loop names listed] obtain st ev where
    pf: "process_file mappings filename fe = Inr (st, ev)"
    and st: "map_of stats filename = Some st"
    by blast
  from pf differs have "status st = ''skipped''"
    "error_message st = Some ''Not a supported file type''"
    by (auto simp: process_file_def)
  with st show ?thesis by simp
qed

theorem process_files_extension_case_sensitive_witness:
  "process_files example_run_env ''mapping.yaml'' = Inr (example_stats, example_events)
   \<and> load_column_mappings (loader example_run_env) ''mapping.yaml'' = Inr example_mappings
   \<and> listdir_result example_run_env = Inr example_files
   \<and> distinct (map fst example_files)
   \<and> (''DATA.CSV'', example_file_env) \<in> set example_files
   \<and> \<not> endswith ''DATA.CSV'' ''.xlsx'' \<and> \<not> endswith ''DATA.CSV'' ''.csv''
   \<and> endswith (lower ''DATA.CSV'') ''.csv''
   \<and> py_in ''DATA.CSV'' example_mappings = Inr True
   \<and> (\<exists>st. map_of example_stats ''DATA.CSV'' = Some st \<and> status st = ''skipped''
        \<and> error_message st = Some ''Not a supported file type'')"
proof -
  have h: "listdir_result example_run_env = Inr example_files"
    "distinct (map fst example_files)"
    "(''DATA.CSV'', example_file_env) \<in> set example_files"
    by (simp_all add: example_fields example_files_def)
  have d: "\<not> endswith ''DATA.CSV'' ''.xlsx''" "\<not> endswith ''DATA.CSV'' ''.csv''"
    "endswith (lower ''DATA.CSV'') ''.csv''"
    "py_in ''DATA.CSV'' example_mappings = Inr True"
    by code_simp+
  from process_files_extension_case_sensitive
    [OF example_run example_load h d(1) d(2) disjI2 [OF d(3)]]
  show ?thesis using example_run example_load h d by simp
qed

text \<open>
  C5 fails on the code. The \<open>continue\<close> of lines 79, 84 and 91 leave the turn of the
  loop before the \<open>try\<close> whose \<open>finally\<close> sets \<open>end_time\<close>: in the example run the
  entries of \<open>b.txt\<close> (not a supported type), \<open>c.csv\<close> (no mapping) and \<open>d.csv\<close> (invalid
  mapping) keep \<open>end_time = None\<close>, while \<open>e.csv\<close>, which fails inside the \<open>try\<close>, has
  both times.
\<close>

theorem process_files_end_time_unset:
  "process_files example_run_env ''mapping.yaml'' = Inr (example_stats, example_events)
   \<and> map_option end_time (map_of example_stats ''b.txt'') = Some None
   \<and> map_option status (map_of example_stats ''b.txt'') = Some ''skipped''
   \<and> map_option end_time (map_of example_stats ''c.csv'') = Some None
   \<and> map_option status (map_of example_stats ''c.csv'') = Some ''skipped''
   \<and> map_option end_time (map_of example_stats ''d.csv'') = Some None
   \<and> map_option status (map_of example_stats ''d.csv'') = Some ''failed''
   \<and> map_option start_time (map_of example_stats ''b.txt'')
       = Some (Some ''2024-05-01T10:00:00.000000'')
   \<and> map_option end_time (map_of example_stats ''e.csv'')
       = Some (Some ''2024-05-01T10:00:02.000000'')"
  using example_run by (simp add: example_stats_def)

section \<open>Exceptions at the file boundary and beyond it\<close>

lemma validate_mapping_config_returns: "\<exists>b. validate_mapping_config mapping filename = Inr b"
proof (cases mapping)
  case (Dict kvs)
  have "py_getitem (Dict kvs) key = Inr (the (map_of kvs key))" if "key \<in> set (map fst kvs)"
    for key
    using that by (auto simp: map_of_eq_None_iff split: option.splits)
  with Dict show ?thesis
    by (auto simp add: validate_mapping_config_def simp del: py_getitem.simps)
qed (auto simp add: validate_mapping_config_def)

lemma process_file_Dict_returns: "\<exists>st ev. process_file (Dict kvs) filename fe = Inr (st, ev)"
proof -
  obtain b where b: "validate_mapping_config (the (map_of kvs filename)) filename = Inr b"
    using validate_mapping_config_returns by blast
  show ?thesis
  proof (cases "map_of kvs filename")
    case None
    then have "filename \<notin> fst ` set kvs" by (simp add: map_of_eq_None_iff)
    then show ?thesis by (auto simp: process_file_def Let_def)
  next
    case (Some fm)
    then have "filename \<in> fst ` set kvs" by (auto dest: map_of_SomeD simp: rev_image_eqI)
    with Some b show ?thesis
      by (cases b) (auto simp: process_file_def Let_def split: prod.splits option.splits)
  qed
qed

lemma files_loop_Dict_returns: "\<exists>stats evs. files_loop (Dict kvs) files acc = Inr (stats, evs)"
proof (induction files arbitrary: acc)
  case Nil
  show ?case by (cases acc) simp
next
  case (Cons p files)
  obtain g ge where p: "p = (g, ge)" by (cases p)
  obtain stats0 evs0 where acc: "acc = (stats0, evs0)" by (cases acc)
  obtain st ev where "process_file (Dict kvs) g ge = Inr (st, ev)"
    using process_file_Dict_returns by blast
  with Cons.IH show ?case by (simp add: p acc)
qed

lemma py_in_TypeError: "py_in key v = Inl x \<Longrightarrow> \<not> isinstance_dict v \<and> exc_class x = ''TypeError''"
  by (induction key v rule: py_in.induct) auto

lemma py_getitem_TypeError:
  "py_getitem v key = Inl x \<Longrightarrow> \<not> isinstance_dict v \<Longrightarrow> exc_class x = ''TypeError''"
  by (induction v key rule: py_getitem.induct) auto

lemma process_file_raises:
  assumes "process_file mappings filename fe = Inl x"
  shows "\<not> isinstance_dict mappings \<and> exc_class x = ''TypeError''"
proof -
  have nd: "\<not> isinstance_dict mappings"
  proof
    assume "isinstance_dict mappings"
    then obtain kvs where "mappings = Dict kvs" by (cases mappings) auto
    with assms process_file_Dict_returns [of kvs filename fe] show False by auto
  qed
  have "validate_mapping_config v filename \<noteq> Inl y" for v y
    using validate_mapping_config_returns [of v filename] by auto
  with assms nd show ?thesis
    by (auto simp: process_file_def Let_def split: if_splits sum.splits bool.splits prod.splits
        option.splits dest: py_in_TypeError py_getitem_TypeError)
qed

lemma files_loop_raises:
  "files_loop mappings files acc = Inl x \<Longrightarrow>
   \<not> isinstance_dict mappings \<and> exc_class x = ''TypeError''"
proof (induction files arbitrary: acc)
  case Nil
  then show ?case by (cases acc) simp
next
  case (Cons p files)
  obtain g ge where p: "p = (g, ge)" by (cases p)
  obtain stats0 evs0 where acc: "acc = (stats0, evs0)" by (cases acc)
  from Cons show ?case
    by (auto simp: p acc split: sum.splits dest: process_file_raises)
qed

text \<open>What the \<open>try\<close> of a file that reaches it leaves in the entry when it raises.\<close>

lemma process_file_try_raises:
  assumes ext: "endswith filename ''.xlsx'' \<or> endswith filename ''.csv''"
    and entry: "map_of kvs filename = Some file_mapping"
    and valid: "validate_mapping_config file_mapping filename = Inr True"
    and raised: "try_raises filename file_mapping fe e"
    and pf: "process_file (Dict kvs) filename fe = Inr (st, ev)"
  shows "status st = ''failed'' \<and> error_message st = Some (exc_str e)
     \<and> processed_rows st = 0 \<and> failed_rows st = 0
     \<and> start_time st = Some (start_now fe) \<and> end_time st = Some (end_now fe)"
proof -
  from entry have key: "filename \<in> fst ` set kvs" by (auto dest: map_of_SomeD simp: rev_image_eqI)
  from raised have "\<exists>st' ev'. try_body filename file_mapping fe
      \<lparr>total_rows = 0, processed_rows = 0, failed_rows = 0, status = ''not_processed'',
       error_message = None, start_time = Some (start_now fe), end_time = None\<rparr>
      = (Some e, st', ev') \<and> processed_rows st' = 0 \<and> failed_rows st' = 0
        \<and> start_time st' = Some (start_now fe)"
    by (auto simp: try_body_def try_raises_def Let_def split: prod.splits sum.splits)
  with ext key entry valid pf show ?thesis
    by (auto simp: process_file_def Let_def)
qed

lemma files_loop_all_entries:
  "files_loop mappings files (stats0, evs0) = Inr (stats, evs) \<Longrightarrow>
   filename \<in> set (map fst files) \<Longrightarrow> map_of stats filename \<noteq> None"
proof (induction files arbitrary: stats0 evs0)
  case Nil
  then show ?case by simp
next
  case (Cons p files)
  obtain g ge where p: "p = (g, ge)" by (cases p)
  from Cons.prems(1) obtain st ev where
    rest: "files_loop mappings files (dict_set stats0 g st, evs0 @ ev) = Inr (stats, evs)"
    by (auto simp: p split: sum.splits)
  show ?case
  proof (cases "filename \<in> set (map fst files)")
    case True
    with Cons.IH [OF rest] show ?thesis by simp
  next
    case False
    with Cons.prems(2) have "filename = g" by (simp add: p)
    with files_loop_other [OF rest False] show ?thesis by (simp add: map_of_dict_set)
  qed
qed




section \<open>Facts about frames\<close>

lemma length_default_index [simp]: "length (default_index n) = n"
  by (simp add: default_index_def)

lemma nth_default_index [simp]: "i < n \<Longrightarrow> default_index n ! i = IntV (int i)"
  by (simp add: default_index_def)

lemma nrows_DataFrame [simp]: "nrows (DataFrame n) = n"
  by (simp add: DataFrame_def nrows_def)

lemma columns_setitem:
  "columns (setitem label vals fr)
     = (if label \<in> set (columns fr) then columns fr else columns fr @ [label])"
  by (auto simp: setitem_def columns_def)

lemma index_setitem [simp]: "index (setitem label vals fr) = index fr"
  by (simp add: setitem_def)

lemma nrows_setitem [simp]: "nrows (setitem label vals fr) = nrows fr"
  by (simp add: nrows_def)

lemma map_of_replace:
  "map_of (map (\<lambda>(c, xs). if c = label then (c, vals) else (c, xs)) cs) key
     = (if key = label then (if label \<in> fst ` set cs then Some vals else None)
        else map_of cs key)"
  by (induction cs) (auto simp: rev_image_eqI)

lemma map_of_setitem:
  "map_of (cols (setitem label vals fr)) key
     = (if key = label then Some vals else map_of (cols fr) key)"
proof (cases "label \<in> set (columns fr)")
  case True
  then show ?thesis by (simp add: setitem_def map_of_replace columns_def)
next
  case False
  then have "map_of (cols fr) label = None" by (simp add: map_of_eq_None_iff columns_def)
  with False show ?thesis by (auto simp: setitem_def map_add_def split: option.splits)
qed

lemma well_formed_setitem:
  "well_formed fr \<Longrightarrow> length vals = nrows fr \<Longrightarrow> well_formed (setitem label vals fr)"
  unfolding well_formed_def columns_setitem
  by (auto simp: setitem_def columns_def nrows_def)

lemma default_frame_cols:
  "default_frame n data_source created modified filename inserted =
     \<lparr>index = default_index n,
      cols = [(''DataSource'', replicate n (Field data_source)),
              (''SourceCreatedDate'', replicate n (Field (StrV created))),
              (''SourceModifiedDate'', replicate n (Field (StrV modified))),
              (''SourceFile'', replicate n (Field (StrV filename))),
              (''BQInsertedDate'', replicate n (Field (StrV inserted))),
              (''Id'', replicate n (Field NoneV)),
              (''FirstName'', replicate n (Field NoneV)),
              (''LastName'', replicate n (Field NoneV)),
              (''Email'', replicate n (Field NoneV)),
              (''Mobile'', replicate n (Field NoneV)),
              (''PostCode'', replicate n (Field NoneV))]\<rparr>"
  by (simp add: default_frame_def setitem_scalar_def setitem_def DataFrame_def columns_def
      nrows_def)

lemma nrows_default_frame [simp]:
  "nrows (default_frame n data_source created modified filename inserted) = n"
  by (simp add: default_frame_cols nrows_def)

lemma well_formed_default_frame:
  "well_formed (default_frame n data_source created modified filename inserted)"
  unfolding well_formed_def nrows_default_frame
  by (simp add: default_frame_cols columns_def)

lemma columns_take_row [simp]: "columns (take_row fr i) = columns fr"
  by (simp add: take_row_def columns_def comp_def case_prod_unfold)

lemma nrows_take_row [simp]: "nrows (take_row fr i) = 1"
  by (simp add: take_row_def nrows_def)

lemma index_take_row [simp]: "index (take_row fr i) = default_index 1"
  by (simp add: take_row_def)

lemma map_of_map_cells:
  "map_of (map (\<lambda>(c, xs). (c, f c xs)) cs) key = map_option (f key) (map_of cs key)"
  by (induction cs) auto

lemma map_of_take_row:
  "map_of (cols (take_row fr i)) key = map_option (\<lambda>xs. [xs ! i]) (map_of (cols fr) key)"
  by (simp add: take_row_def map_of_map_cells)

lemma take_row_setitem:
  "take_row (setitem label vals fr) i = setitem label [vals ! i] (take_row fr i)"
  by (simp add: setitem_def take_row_def columns_def comp_def case_prod_unfold)

lemma take_row_default_frame:
  "i < n \<Longrightarrow> take_row (default_frame n d c m f ins) i = default_frame 1 d c m f ins"
  by (simp add: default_frame_cols take_row_def)


section \<open>The alignment of an assigned column\<close>

lemma reindex_default:
  "index df = default_index (nrows df) \<Longrightarrow> reindex df series = Some (Inr series)"
  by (simp add: reindex_def)

lemma reindex_length:
  "reindex df series = Some (Inr aligned) \<Longrightarrow> length series = nrows df \<Longrightarrow>
   length aligned = nrows df"
  by (auto simp: reindex_def split: if_splits)

section \<open>The loop over the columns\<close>

lemma column_well_formed:
  "well_formed df \<Longrightarrow> label \<in> set (columns df) \<Longrightarrow> length (column df label) = nrows df"
proof -
  assume wf: "well_formed df" and l: "label \<in> set (columns df)"
  from l obtain xs where xs: "map_of (cols df) label = Some xs"
    by (cases "map_of (cols df) label") (auto simp: map_of_eq_None_iff columns_def)
  then have "xs \<in> snd ` set (cols df)" by (auto dest: map_of_SomeD simp: rev_image_eqI)
  with wf xs show ?thesis by (auto simp: well_formed_def column_def)
qed

lemma column_take_row:
  "label \<in> set (columns df) \<Longrightarrow> column (take_row df i) label = [column df label ! i]"
  by (cases "map_of (cols df) label")
     (auto simp: column_def map_of_take_row map_of_eq_None_iff columns_def)

lemma map_columns_invariant:
  "map_columns df filename items (new_df, printed) = Some (printed', Inr new_df') \<Longrightarrow>
   well_formed df \<Longrightarrow> well_formed new_df \<Longrightarrow> nrows new_df = nrows df \<Longrightarrow>
   well_formed new_df' \<and> nrows new_df' = nrows df"
proof (induction items arbitrary: new_df printed)
  case Nil
  then show ?case by simp
next
  case (Cons p items)
  obtain source_col target_col where p: "p = (source_col, target_col)" by (cases p)
  show ?case
  proof (cases "source_col \<in> set (columns df)")
    case True
    with Cons.prems(1) obtain target series where
      r: "reindex df (column df source_col) = Some (Inr series)"
      and rest: "map_columns df filename items (setitem target (map Field series) new_df, printed)
        = Some (printed', Inr new_df')"
      by (auto simp: p split: pyval.splits scalar.splits option.splits sum.splits)
    from True Cons.prems have "length series = nrows df"
      by (simp add: reindex_length [OF r] column_well_formed)
    with Cons.prems have "well_formed (setitem target (map Field series) new_df)"
      by (simp add: well_formed_setitem)
    with Cons.IH [OF rest] Cons.prems show ?thesis by simp
  next
    case False
    with Cons.prems(1) have "map_columns df filename items
        (new_df, printed @ [''Warning: Column '' @ source_col @ '' not found in '' @ filename])
      = Some (printed', Inr new_df')"
      by (simp add: p)
    from Cons.IH [OF this] Cons.prems show ?thesis by simp
  qed
qed

lemma map_columns_nrows:
  "map_columns df filename items (new_df, printed) = Some (printed', Inr new_df') \<Longrightarrow>
   nrows new_df' = nrows new_df"
proof (induction items arbitrary: new_df printed)
  case Nil
  then show ?case by simp
next
  case (Cons p items)
  obtain source_col target_col where p: "p = (source_col, target_col)" by (cases p)
  show ?case
  proof (cases "source_col \<in> set (columns df)")
    case True
    with Cons.prems(1) obtain target series where
      rest: "map_columns df filename items (setitem target (map Field series) new_df, printed)
        = Some (printed', Inr new_df')"
      by (auto simp: p split: pyval.splits scalar.splits option.splits sum.splits)
    from Cons.IH [OF rest] show ?thesis by simp
  next
    case False
    with Cons.prems(1) have "map_columns df filename items
        (new_df, printed @ [''Warning: Column '' @ source_col @ '' not found in '' @ filename])
      = Some (printed', Inr new_df')"
      by (simp add: p)
    from Cons.IH [OF this] show ?thesis .
  qed
qed

lemma map_columns_returns:
  "index df = default_index (nrows df) \<Longrightarrow>
   \<forall>(source_col, target_col) \<in> set items. source_col \<in> set (columns df) \<longrightarrow> is_str target_col
   \<Longrightarrow> \<exists>printed' new_df'. map_columns df filename items st = Some (printed', Inr new_df')"
proof (induction items arbitrary: st)
  case Nil
  show ?case by (cases st) simp
next
  case (Cons p items)
  obtain source_col target_col where p: "p = (source_col, target_col)" by (cases p)
  obtain new_df printed where st: "st = (new_df, printed)" by (cases st)
  from Cons.prems have rest: "\<forall>(source_col, target_col) \<in> set items.
      source_col \<in> set (columns df) \<longrightarrow> is_str target_col"
    by simp
  show ?case
  proof (cases "source_col \<in> set (columns df)")
    case True
    with Cons.prems have "is_str target_col" by (simp add: p)
    then obtain target where "target_col = Scalar (StrV target)"
      by (cases target_col rule: is_str.cases) auto
    with True Cons.IH [OF Cons.prems(1) rest] Cons.prems(1) show ?thesis
      by (simp add: p st reindex_default)
  next
    case False
    with Cons.IH [OF Cons.prems(1) rest] show ?thesis by (simp add: p st)
  qed
qed

lemma map_columns_take_row:
  "map_columns df filename items (new_df, printed) = Some (printed', Inr new_df') \<Longrightarrow>
   index df = default_index (nrows df) \<Longrightarrow> well_formed df \<Longrightarrow> i < nrows df \<Longrightarrow>
   map_columns (take_row df i) filename items (take_row new_df i, printed)
     = Some (printed', Inr (take_row new_df' i))"
proof (induction items arbitrary: new_df printed)
  case Nil
  then show ?case by simp
next
  case (Cons p items)
  obtain source_col target_col where p: "p = (source_col, target_col)" by (cases p)
  show ?case
  proof (cases "source_col \<in> set (columns df)")
    case True
    with Cons.prems(1,2) obtain target where t: "target_col = Scalar (StrV target)"
      and rest: "map_columns df filename items
          (setitem target (map Field (column df source_col)) new_df, printed)
        = Some (printed', Inr new_df')"
      by (auto simp: p reindex_default split: pyval.splits scalar.splits)
    from True Cons.prems have "i < length (column df source_col)"
      by (simp add: column_well_formed)
    then have "map Field (column df source_col) ! i = Field (column df source_col ! i)"
      by simp
    with Cons.IH [OF rest Cons.prems(2,3,4)] True show ?thesis
      by (simp add: p t take_row_setitem column_take_row reindex_default)
  next
    case False
    with Cons.prems(1) have "map_columns df filename items
        (new_df, printed @ [''Warning: Column '' @ source_col @ '' not found in '' @ filename])
      = Some (printed', Inr new_df')"
      by (simp add: p)
    from Cons.IH [OF this Cons.prems(2,3,4)] False show ?thesis by (simp add: p)
  qed
qed

section \<open>The Attributes\<close>

lemma iloc_parsed:
  assumes "parsed_frame df" "label \<in> set (columns df)" "idx < nrows df"
  shows "iloc df label idx \<noteq> PandasObj \<and> iloc df label idx \<noteq> StrV []"
proof -
  from assms(2) obtain xs where xs: "map_of (cols df) label = Some xs"
    by (cases "map_of (cols df) label") (auto simp: map_of_eq_None_iff columns_def)
  then have in_cols: "xs \<in> set (map snd (cols df))"
    by (auto dest: map_of_SomeD simp: rev_image_eqI)
  with assms(1) have "length xs = nrows df" "PandasObj \<notin> set xs" "StrV [] \<notin> set xs"
    by (auto simp: parsed_frame_def well_formed_def)
  moreover from \<open>length xs = nrows df\<close> assms(3) have "xs ! idx \<in> set xs" by simp
  ultimately show ?thesis using xs
    by (auto simp: iloc_def column_def)
qed

lemma row_attributes_closed:
  assumes "parsed_frame df" "idx < nrows df"
  shows "row_attributes df idx items acc =
     Inr (acc @ map (\<lambda>(source_col, attr_name). Attribute attr_name (py_str (iloc df source_col idx)))
                  (filter (\<lambda>(source_col, attr_name).
                     source_col \<in> set (columns df) \<and> \<not> isna (iloc df source_col idx)) items))"
proof (induction items arbitrary: acc)
  case Nil
  show ?case by simp
next
  case (Cons p items)
  obtain source_col attr_name where p: "p = (source_col, attr_name)" by (cases p)
  show ?case
  proof (cases "source_col \<in> set (columns df)")
    case True
    with iloc_parsed [OF assms(1) _ assms(2)] have "iloc df source_col idx \<noteq> PandasObj" by simp
    with True Cons.IH show ?thesis by (simp add: p if_notna_def Let_def)
  next
    case False
    with Cons.IH show ?thesis by (simp add: p)
  qed
qed

lemma attributes_loop_closed:
  assumes "parsed_frame df" "\<forall>idx \<in> set idxs. idx < nrows df"
    and "map_of kvs ''attributes'' = Some (Dict items)"
  shows "attributes_loop df (Dict kvs) idxs acc =
     Inr (acc @ map (\<lambda>idx.
            map (\<lambda>(source_col, attr_name). Attribute attr_name (py_str (iloc df source_col idx)))
              (filter (\<lambda>(source_col, attr_name).
                 source_col \<in> set (columns df) \<and> \<not> isna (iloc df source_col idx)) items)) idxs)"
  using assms(2)
proof (induction idxs arbitrary: acc)
  case Nil
  show ?case by simp
next
  case (Cons idx idxs)
  then have "idx < nrows df" by simp
  from row_attributes_closed [OF assms(1) this, of items "[]"] Cons assms(3)
  show ?case by simp
qed


lemma iloc_take_row:
  "label \<in> set (columns df) \<Longrightarrow> iloc (take_row df i) label 0 = iloc df label i"
  by (simp add: iloc_def column_take_row)

lemma cells_take_row:
  assumes "well_formed fr" "i < nrows fr" "xs \<in> set (map snd (cols (take_row fr i)))"
  shows "\<exists>ys \<in> set (map snd (cols fr)). xs = [ys ! i] \<and> ys ! i \<in> set ys"
proof -
  from assms(3) obtain c ys where cy: "(c, ys) \<in> set (cols fr)" and xs: "xs = [ys ! i]"
    by (auto simp: take_row_def)
  then have ys: "ys \<in> set (map snd (cols fr))" by (auto simp: rev_image_eqI)
  with assms(1) have "length ys = nrows fr" by (auto simp: well_formed_def)
  with assms(2) have "ys ! i \<in> set ys" by simp
  with ys xs show ?thesis by blast
qed

lemma well_formed_take_row: "well_formed fr \<Longrightarrow> well_formed (take_row fr i)"
  by (auto simp: well_formed_def take_row_def columns_def comp_def case_prod_unfold nrows_def)

lemma parsed_frame_take_row:
  "parsed_frame df \<Longrightarrow> i < nrows df \<Longrightarrow> parsed_frame (take_row df i)"
  unfolding parsed_frame_def
  by (auto simp: well_formed_take_row dest!: cells_take_row)

section \<open>The records\<close>

lemma json_rows_of_nth:
  "i < nrows new_df \<Longrightarrow>
   json_rows_of new_df ! i
     = map (\<lambda>(key, xs). (key, null_normalize key (xs ! i))) (cols new_df)"
  by (simp add: json_rows_of_def to_dict_def comp_def case_prod_unfold)

lemma length_json_rows_of [simp]: "length (json_rows_of new_df) = nrows new_df"
  by (simp add: json_rows_of_def)

lemma json_rows_of_take_row:
  "i < nrows new_df \<Longrightarrow> json_rows_of (take_row new_df i) = [json_rows_of new_df ! i]"
  by (simp add: json_rows_of_nth)
     (simp add: json_rows_of_def to_dict_def take_row_def comp_def case_prod_unfold nrows_def)


section \<open>The normalization of a valid mapping on a parsed file\<close>

lemma validate_True:
  assumes "validate_mapping_config file_mapping filename = Inr True"
  obtains kvs items where "file_mapping = Dict kvs"
    and "map_of kvs ''columns'' = Some (Dict items)"
    and "map_of kvs ''attributes'' = None \<or> (\<exists>attrs. map_of kvs ''attributes'' = Some (Dict attrs))"
proof -
  from assms obtain kvs where d: "file_mapping = Dict kvs"
    by (cases file_mapping) (auto simp: validate_mapping_config_def)
  from assms d obtain c where c: "map_of kvs ''columns'' = Some c"
    by (cases "map_of kvs ''columns''")
       (auto simp: validate_mapping_config_def map_of_eq_None_iff split: if_splits)
  then have inc: "''columns'' \<in> fst ` set kvs" by (auto dest: map_of_SomeD simp: rev_image_eqI)
  from assms d c inc obtain items where i: "c = Dict items"
    by (cases c) (auto simp: validate_mapping_config_def split: if_splits)
  have "map_of kvs ''attributes'' = None \<or> (\<exists>attrs. map_of kvs ''attributes'' = Some (Dict attrs))"
  proof (cases "map_of kvs ''attributes''")
    case None
    then show ?thesis by simp
  next
    case (Some a)
    then have "''attributes'' \<in> fst ` set kvs" by (auto dest: map_of_SomeD simp: rev_image_eqI)
    with assms d c inc i Some show ?thesis
      by (cases a) (auto simp: validate_mapping_config_def split: if_splits)
  qed
  with d c i that show ?thesis by blast
qed

lemma build_attributes_closed:
  assumes valid: "validate_mapping_config file_mapping filename = Inr True"
    and frame: "parsed_frame df"
  shows "build_attributes df file_mapping
     = Inr (map (attributes_by_spec df file_mapping) [0..<nrows df])"
proof -
  from valid obtain kvs items where d: "file_mapping = Dict kvs"
    and a: "map_of kvs ''attributes'' = None \<or> (\<exists>attrs. map_of kvs ''attributes'' = Some (Dict attrs))"
    by (rule validate_True)
  have same: "(source_col \<in> set (columns df) \<and> \<not> blank (iloc df source_col idx))
      = (source_col \<in> set (columns df) \<and> \<not> isna (iloc df source_col idx))"
    if "idx < nrows df" for source_col idx
    using iloc_parsed [OF frame _ that, of source_col] by (auto simp: blank_def)
  from a show ?thesis
  proof
    assume n: "map_of kvs ''attributes'' = None"
    then have "''attributes'' \<notin> fst ` set kvs" by (simp add: map_of_eq_None_iff)
    moreover have "attributes_by_spec df file_mapping = (\<lambda>idx. [])"
      by (simp add: fun_eq_iff attributes_by_spec_def d n)
    ultimately show ?thesis using d
      by (simp add: build_attributes_def map_replicate_const)
  next
    assume "\<exists>attrs. map_of kvs ''attributes'' = Some (Dict attrs)"
    then obtain attrs where s: "map_of kvs ''attributes'' = Some (Dict attrs)" by blast
    then have inn: "''attributes'' \<in> fst ` set kvs"
      by (auto dest: map_of_SomeD simp: rev_image_eqI)
    have "attributes_loop df (Dict kvs) [0..<nrows df] []
        = Inr (map (attributes_by_spec df file_mapping) [0..<nrows df])"
      using attributes_loop_closed [OF frame _ s, of "[0..<nrows df]" "[]"] same
      by (auto simp: attributes_by_spec_def d s cong: filter_cong)
    with inn d show ?thesis by (simp add: build_attributes_def)
  qed
qed

lemma attributes_by_spec_take_row:
  "attributes_by_spec (take_row df i) file_mapping 0 = attributes_by_spec df file_mapping i"
proof (cases "map_of (dict_items file_mapping) ''attributes''")
  case None
  then show ?thesis by (simp add: attributes_by_spec_def)
next
  case (Some attrs)
  have f: "filter (\<lambda>(source_col, attr_name).
                source_col \<in> set (columns (take_row df i))
                \<and> \<not> blank (iloc (take_row df i) source_col 0)) (dict_items attrs)
      = filter (\<lambda>(source_col, attr_name).
                source_col \<in> set (columns df) \<and> \<not> blank (iloc df source_col i))
          (dict_items attrs)"
    by (rule filter_cong) (auto simp: iloc_take_row)
  have "map (\<lambda>(source_col, attr_name).
               Attribute attr_name (py_str (iloc (take_row df i) source_col 0)))
          (filter (\<lambda>(source_col, attr_name).
                source_col \<in> set (columns df) \<and> \<not> blank (iloc df source_col i))
            (dict_items attrs))
      = map (\<lambda>(source_col, attr_name). Attribute attr_name (py_str (iloc df source_col i)))
          (filter (\<lambda>(source_col, attr_name).
                source_col \<in> set (columns df) \<and> \<not> blank (iloc df source_col i))
            (dict_items attrs))"
    by (rule map_cong) (auto simp: iloc_take_row)
  with f Some show ?thesis by (simp add: attributes_by_spec_def)
qed

lemma build_new_df_closed:
  assumes d: "file_mapping = Dict kvs"
    and c: "map_of kvs ''columns'' = Some (Dict items)"
    and ds: "(case map_of kvs ''data_source'' of None \<Rightarrow> Scalar (StrV ''unknown'') | Some v \<Rightarrow> v)
               = Scalar data_source"
    and mc: "map_columns df filename items
               (default_frame (nrows df) data_source created modified filename inserted, [])
             = Some (printed, Inr new_df)"
    and ba: "build_attributes df file_mapping = Inr attribute_rows"
    and len: "length attribute_rows = nrows df"
  shows "build_new_df filename file_mapping (created, modified, inserted) df
     = Some (printed, Inr (setitem ''Attributes'' (map Attributes attribute_rows) new_df))"
proof -
  from map_columns_nrows [OF mc] have "nrows new_df = nrows df" by simp
  with d c ds mc ba len show ?thesis
    by (simp add: build_new_df_def setitem_list_def)
qed

lemma build_new_df_built:
  assumes "build_new_df filename file_mapping now df = Some (printed, Inr new_df)"
  obtains data_source created modified inserted items fr attribute_rows where
    "map_columns df filename items
       (default_frame (nrows df) data_source created modified filename inserted, [])
     = Some (printed, Inr fr)"
    and "build_attributes df file_mapping = Inr attribute_rows"
    and "length attribute_rows = nrows df"
    and "new_df = setitem ''Attributes'' (map Attributes attribute_rows) fr"
proof -
  from assms obtain data_source created modified inserted items fr attribute_rows where
    mc: "map_columns df filename items
       (default_frame (nrows df) data_source created modified filename inserted, [])
     = Some (printed, Inr fr)"
    and ba: "build_attributes df file_mapping = Inr attribute_rows"
    and len: "length attribute_rows = nrows fr"
    and new_df: "new_df = setitem ''Attributes'' (map Attributes attribute_rows) fr"
    by (auto simp: build_new_df_def setitem_list_def
        split: sum.splits pyval.splits option.splits prod.splits if_splits)
  from map_columns_nrows [OF mc] len have "length attribute_rows = nrows df" by simp
  with mc ba new_df that show ?thesis by blast
qed

lemma modelled_data_source:
  assumes "modelled (Dict kvs) df"
  obtains data_source where
    "(case map_of kvs ''data_source'' of None \<Rightarrow> Scalar (StrV ''unknown'') | Some v \<Rightarrow> v)
       = Scalar data_source"
proof (cases "map_of kvs ''data_source''")
  case None
  with that show ?thesis by simp
next
  case (Some v)
  with assms have "is_scalar v" by (simp add: modelled_def)
  then obtain x where "v = Scalar x" by (cases v) auto
  with Some that show ?thesis by simp
qed

lemma normalize_closed:
  assumes valid: "validate_mapping_config file_mapping filename = Inr True"
    and scope: "modelled file_mapping df"
    and frame: "parsed_frame df"
    and default: "index df = default_index (nrows df)"
  obtains new_df printed where
    "normalize filename file_mapping now df
       = Some (printed,
           Inr (json_rows_of
             (setitem ''Attributes''
                (map Attributes (map (attributes_by_spec df file_mapping) [0..<nrows df]))
                new_df)))"
    and "nrows new_df = nrows df"
    and "\<forall>idx < nrows df.
           normalize filename file_mapping now (take_row df idx)
             = Some (printed,
                 Inr (json_rows_of
                   (take_row
                     (setitem ''Attributes''
                        (map Attributes (map (attributes_by_spec df file_mapping) [0..<nrows df]))
                        new_df) idx)))"
proof -
  obtain created modified inserted where now: "now = (created, modified, inserted)"
    by (cases now) auto
  from frame have wf: "well_formed df" by (simp add: parsed_frame_def)
  from valid obtain kvs items where d: "file_mapping = Dict kvs"
    and c: "map_of kvs ''columns'' = Some (Dict items)"
    by (rule validate_True)
  from scope d obtain data_source where
    ds: "(case map_of kvs ''data_source'' of None \<Rightarrow> Scalar (StrV ''unknown'') | Some v \<Rightarrow> v)
       = Scalar data_source"
    by (auto elim: modelled_data_source)
  from scope d c have targets: "\<forall>(source_col, target_col) \<in> set items.
      source_col \<in> set (columns df) \<longrightarrow> is_str target_col"
    by (simp add: modelled_def)
  let ?d0 = "\<lambda>n. default_frame n data_source created modified filename inserted"
  from map_columns_returns [OF default targets] obtain printed new_df where
    mc: "map_columns df filename items (?d0 (nrows df), []) = Some (printed, Inr new_df)"
    by blast
  from map_columns_nrows [OF mc] have n: "nrows new_df = nrows df" by simp
  let ?rows = "map (attributes_by_spec df file_mapping) [0..<nrows df]"
  let ?F = "setitem ''Attributes'' (map Attributes ?rows) new_df"
  have ba: "build_attributes df file_mapping = Inr ?rows"
    by (rule build_attributes_closed [OF valid frame])
  have full: "build_new_df filename file_mapping now df = Some (printed, Inr ?F)"
    unfolding now by (rule build_new_df_closed [OF d c ds mc ba]) simp
  have row: "build_new_df filename file_mapping now (take_row df idx)
      = Some (printed, Inr (take_row ?F idx))" if idx: "idx < nrows df" for idx
  proof -
    from idx have mc': "map_columns (take_row df idx) filename items
        (?d0 (nrows (take_row df idx)), []) = Some (printed, Inr (take_row new_df idx))"
      using map_columns_take_row [OF mc default wf idx] by (simp add: take_row_default_frame)
    have ba': "build_attributes (take_row df idx) file_mapping
        = Inr [attributes_by_spec df file_mapping idx]"
      using build_attributes_closed [OF valid parsed_frame_take_row [OF frame idx]]
      by (simp add: attributes_by_spec_take_row)
    have "build_new_df filename file_mapping now (take_row df idx)
        = Some (printed,
            Inr (setitem ''Attributes'' (map Attributes [attributes_by_spec df file_mapping idx])
                  (take_row new_df idx)))"
      unfolding now
      by (rule build_new_df_closed [OF d c ds mc' ba']) simp
    with idx show ?thesis by (simp add: take_row_setitem)
  qed
  show ?thesis
  proof (rule that [of printed new_df])
    show "normalize filename file_mapping now df = Some (printed, Inr (json_rows_of ?F))"
      using full by (simp add: normalize_def)
    show "nrows new_df = nrows df" by (rule n)
    show "\<forall>idx < nrows df. normalize filename file_mapping now (take_row df idx)
        = Some (printed, Inr (json_rows_of (take_row ?F idx)))"
      using row by (simp add: normalize_def)
  qed
qed

text \<open>
  When the index of the file is the default one, 0 to \<open>len(df) - 1\<close>, the normalization
  returns one record for each row, in the order of the rows, and the record \<open>idx\<close> is the
  record that the same normalization gives for the file holding the row \<open>idx\<close> alone.
\<close>

lemma normalize_row_by_row_default_index:
  assumes valid: "validate_mapping_config file_mapping filename = Inr True"
    and scope: "modelled file_mapping df"
    and frame: "parsed_frame df"
    and default: "index df = default_index (nrows df)"
  shows "\<exists>printed json_rows.
     normalize filename file_mapping now df = Some (printed, Inr json_rows)
     \<and> length json_rows = nrows df
     \<and> (\<forall>idx < nrows df.
          normalize filename file_mapping now (take_row df idx)
            = Some (printed, Inr [json_rows ! idx]))"
proof -
  from normalize_closed [OF valid scope frame default, of now] obtain new_df printed F where
    F: "F = setitem ''Attributes''
          (map Attributes (map (attributes_by_spec df file_mapping) [0..<nrows df])) new_df"
    and full: "normalize filename file_mapping now df = Some (printed, Inr (json_rows_of F))"
    and n: "nrows new_df = nrows df"
    and rows: "\<forall>idx < nrows df. normalize filename file_mapping now (take_row df idx)
        = Some (printed, Inr (json_rows_of (take_row F idx)))"
    by metis
  from F n have nF: "nrows F = nrows df" by simp
  with rows have "\<forall>idx < nrows df. normalize filename file_mapping now (take_row df idx)
        = Some (printed, Inr [json_rows_of F ! idx])"
    by (simp add: json_rows_of_take_row)
  with full nF show ?thesis by simp
qed


section \<open>Null normalization\<close>

lemma cols_setitem_other:
  "(key, xs) \<in> set (cols (setitem label vals fr)) \<Longrightarrow> key \<noteq> label \<Longrightarrow>
   (key, xs) \<in> set (cols fr)"
  by (auto simp: setitem_def split: if_splits)

lemma cells_setitem:
  "xs \<in> set (map snd (cols (setitem label vals fr))) \<Longrightarrow>
   xs = vals \<or> xs \<in> set (map snd (cols fr))"
  by (auto simp: setitem_def rev_image_eqI split: if_splits)

lemma map_columns_fields:
  "map_columns df filename items (new_df, printed) = Some (printed', Inr new_df') \<Longrightarrow>
   \<forall>xs \<in> set (map snd (cols new_df)). \<forall>x \<in> set xs. \<exists>v. x = Field v \<Longrightarrow>
   \<forall>xs \<in> set (map snd (cols new_df')). \<forall>x \<in> set xs. \<exists>v. x = Field v"
proof (induction items arbitrary: new_df printed)
  case Nil
  then show ?case by simp
next
  case (Cons p items)
  obtain source_col target_col where p: "p = (source_col, target_col)" by (cases p)
  show ?case
  proof (cases "source_col \<in> set (columns df)")
    case True
    with Cons.prems(1) obtain target series where
      rest: "map_columns df filename items (setitem target (map Field series) new_df, printed)
        = Some (printed', Inr new_df')"
      by (auto simp: p split: pyval.splits scalar.splits option.splits sum.splits)
    have "\<forall>xs \<in> set (map snd (cols (setitem target (map Field series) new_df))).
        \<forall>x \<in> set xs. \<exists>v. x = Field v"
    proof
      fix xs
      assume "xs \<in> set (map snd (cols (setitem target (map Field series) new_df)))"
      from cells_setitem [OF this] Cons.prems(2) show "\<forall>x \<in> set xs. \<exists>v. x = Field v"
        by auto
    qed
    from Cons.IH [OF rest this] show ?thesis .
  next
    case False
    with Cons.prems(1) have "map_columns df filename items
        (new_df, printed @ [''Warning: Column '' @ source_col @ '' not found in '' @ filename])
      = Some (printed', Inr new_df')"
      by (simp add: p)
    from Cons.IH [OF this Cons.prems(2)] show ?thesis .
  qed
qed

lemma default_frame_fields:
  "\<forall>xs \<in> set (map snd (cols (default_frame n d c m f i))). \<forall>x \<in> set xs. \<exists>v. x = Field v"
  by (auto simp: default_frame_cols)



section \<open>The example file\<close>

lemma example_build:
  "build_new_df ''a.csv'' example_mapping example_now example_df
     = Some (example_printed, Inr example_new_df)"
  by code_simp

lemma example_json_rows: "json_rows_of example_new_df = example_rows"
  by code_simp

lemma example_normalize:
  "normalize ''a.csv'' example_mapping example_now example_df
     = Some (example_printed, Inr example_rows)"
  by (simp add: normalize_def example_build example_json_rows)

lemma example_valid: "validate_mapping_config example_mapping ''a.csv'' = Inr True"
  by (simp add: validate_mapping_config_def example_mapping_def)

lemma example_modelled: "modelled example_mapping example_df"
  by (simp add: modelled_def example_mapping_def example_df_def columns_def)

lemma example_parsed: "parsed_frame example_df"
  by (simp add: parsed_frame_def well_formed_def example_df_def columns_def nrows_def)

lemma example_default: "index example_df = default_index (nrows example_df)"
  by (simp add: example_df_def nrows_def default_index_def upt_rec)



text \<open>The two files with an index of their own are files as the parser gives them.\<close>

lemma example_shifted_parsed:
  "parsed_frame example_shifted_df \<and> parsed_frame example_twice_df"
  by (simp add: parsed_frame_def well_formed_def example_shifted_df_def example_twice_df_def
      columns_def nrows_def)

text \<open>
  C1 fails on the code. Line 119 assigns a column of the file to \<open>new_df\<close>, whose index
  is \<open>range(len(df))\<close> (line 102): pandas aligns the values on the labels of the index, it
  does not copy them by position. For the CSV file \<^verbatim>\<open>id,name\<close> / \<^verbatim>\<open>1,A1,Ann\<close> /
  \<^verbatim>\<open>0,B2,Bob\<close>, whose index is 1, 0, the record 0 takes its Id, B2, from the row 1 and
  its Attributes, which line 130 reads by position, from the row 0 (Name is Ann): the
  record 0 is not derived from the row 0. With the label 1 on both rows line 119 raises
  ValueError, and the file of two rows gives no record. The comment of line 101 and the
  reads by position of lines 130 and 144 show that the record i was meant to come from
  the row i.
\<close>

theorem normalize_misaligned_index:
  "validate_mapping_config example_id_mapping ''a.csv'' = Inr True
   \<and> iloc example_shifted_df ''id'' 0 = StrV ''A1''
   \<and> iloc example_shifted_df ''id'' 1 = StrV ''B2''
   \<and> iloc example_shifted_df ''name'' 0 = StrV ''Ann''
   \<and> normalize ''a.csv'' example_id_mapping example_now example_shifted_df
       = Some ([], Inr example_shifted_rows)
   \<and> map_of (example_shifted_rows ! 0) ''Id'' = Some (Field (StrV ''B2''))
   \<and> map_of (example_shifted_rows ! 0) ''Attributes''
       = Some (Attributes [Attribute (Scalar (StrV ''Name'')) ''Ann''])
   \<and> normalize ''a.csv'' example_id_mapping example_now example_twice_df
       = Some ([], Inl (Exc ''ValueError'' ''cannot reindex on an axis with duplicate labels''))"
  by code_simp

section \<open>A source column the file does not have\<close>

lemma map_columns_without_absent:
  "map_columns df filename (present_entries df items) (new_df, q) = Some (q', Inr new_df') \<Longrightarrow>
   q' = q
   \<and> map_columns df filename items (new_df, printed)
       = Some (printed @ absent_warnings df filename items, Inr new_df')"
proof (induction items arbitrary: new_df printed)
  case Nil
  then show ?case by (simp add: present_entries_def absent_warnings_def)
next
  case (Cons p items)
  obtain source_col target_col where p: "p = (source_col, target_col)" by (cases p)
  show ?case
  proof (cases "source_col \<in> set (columns df)")
    case True
    with Cons.prems obtain target series where
      t: "target_col = Scalar (StrV target)"
      and r: "reindex df (column df source_col) = Some (Inr series)"
      and rest: "map_columns df filename (present_entries df items)
          (setitem target (map Field series) new_df, q) = Some (q', Inr new_df')"
      by (auto simp: p present_entries_def
          split: pyval.splits scalar.splits option.splits sum.splits)
    from Cons.IH [OF rest, of printed] True t r show ?thesis
      by (simp add: p absent_warnings_def)
  next
    case False
    with Cons.prems have rest: "map_columns df filename (present_entries df items) (new_df, q)
        = Some (q', Inr new_df')"
      by (simp add: p present_entries_def)
    from Cons.IH [OF rest,
        of "printed @ [''Warning: Column '' @ source_col @ '' not found in '' @ filename]"] False
    show ?thesis by (simp add: p absent_warnings_def)
  qed
qed

lemma map_columns_untouched:
  "map_columns df filename items (new_df, printed) = Some (printed', Inr new_df') \<Longrightarrow>
   \<forall>(source_col, target_col) \<in> set items.
      source_col \<in> set (columns df) \<longrightarrow> target_col \<noteq> Scalar (StrV field) \<Longrightarrow>
   map_of (cols new_df') field = map_of (cols new_df) field"
proof (induction items arbitrary: new_df printed)
  case Nil
  then show ?case by simp
next
  case (Cons p items)
  obtain source_col target_col where p: "p = (source_col, target_col)" by (cases p)
  from Cons.prems(2) have rest_ok: "\<forall>(source_col, target_col) \<in> set items.
      source_col \<in> set (columns df) \<longrightarrow> target_col \<noteq> Scalar (StrV field)"
    by simp
  show ?case
  proof (cases "source_col \<in> set (columns df)")
    case True
    with Cons.prems(1) obtain target series where t: "target_col = Scalar (StrV target)"
      and rest: "map_columns df filename items
          (setitem target (map Field series) new_df, printed) = Some (printed', Inr new_df')"
      by (auto simp: p split: pyval.splits scalar.splits option.splits sum.splits)
    from True Cons.prems(2) t have "target \<noteq> field" by (auto simp: p)
    with Cons.IH [OF rest rest_ok] show ?thesis by (simp add: map_of_setitem)
  next
    case False
    with Cons.prems(1) have "map_columns df filename items
        (new_df, printed @ [''Warning: Column '' @ source_col @ '' not found in '' @ filename])
      = Some (printed', Inr new_df')"
      by (simp add: p)
    from Cons.IH [OF this rest_ok] show ?thesis .
  qed
qed

lemma attributes_loop_same_attributes:
  "map_of kvs' ''attributes'' = map_of kvs ''attributes'' \<Longrightarrow>
   attributes_loop df (Dict kvs') idxs acc = attributes_loop df (Dict kvs) idxs acc"
  by (induction idxs arbitrary: acc) (simp_all split: option.splits sum.splits)

lemma build_attributes_same_attributes:
  assumes "map_of kvs' ''attributes'' = map_of kvs ''attributes''"
  shows "build_attributes df (Dict kvs') = build_attributes df (Dict kvs)"
proof -
  from assms have "(''attributes'' \<in> fst ` set kvs') = (''attributes'' \<in> fst ` set kvs)"
    by (metis map_of_eq_None_iff)
  with attributes_loop_same_attributes [OF assms] show ?thesis
    by (simp add: build_attributes_def split: bool.splits)
qed

lemma build_new_df_without_absent:
  assumes c: "map_of kvs ''columns'' = Some (Dict items)"
    and b: "build_new_df filename (without_absent df (Dict kvs)) now df = Some (q, Inr new_df)"
  obtains fr where "q = []"
    and "build_new_df filename (Dict kvs) now df
       = Some (absent_warnings df filename items, Inr new_df)"
    and "\<exists>data_source created modified inserted.
           map_columns df filename items
             (default_frame (nrows df) data_source created modified filename inserted, [])
           = Some (absent_warnings df filename items, Inr fr)"
    and "\<exists>attribute_rows. new_df = setitem ''Attributes'' (map Attributes attribute_rows) fr"
proof -
  let ?kvs' = "dict_set kvs ''columns'' (Dict (present_entries df items))"
  from c have wa: "without_absent df (Dict kvs) = Dict ?kvs'"
    by (simp add: without_absent_def)
  have look: "map_of ?kvs' key
      = (if key = ''columns'' then Some (Dict (present_entries df items)) else map_of kvs key)"
    for key
    by (simp add: map_of_dict_set)
  have ba: "build_attributes df (Dict ?kvs') = build_attributes df (Dict kvs)"
    by (rule build_attributes_same_attributes) (simp add: look)
  obtain created modified inserted where now: "now = (created, modified, inserted)"
    by (cases now) auto
  from b obtain data_source fr attribute_rows where
    ds: "(case map_of kvs ''data_source'' of None \<Rightarrow> Scalar (StrV ''unknown'') | Some v \<Rightarrow> v)
       = Scalar data_source"
    and mc: "map_columns df filename (present_entries df items)
        (default_frame (nrows df) data_source created modified filename inserted, [])
      = Some (q, Inr fr)"
    and bat: "build_attributes df (Dict kvs) = Inr attribute_rows"
    and set: "setitem_list ''Attributes'' (map Attributes attribute_rows) fr = Inr new_df"
    unfolding wa now
    by (auto simp: build_new_df_def look ba
        split: sum.splits pyval.splits option.splits prod.splits)
  from map_columns_without_absent [OF mc, of "[]"]
  have q: "q = []"
    and mc': "map_columns df filename items
        (default_frame (nrows df) data_source created modified filename inserted, [])
      = Some (absent_warnings df filename items, Inr fr)"
    by simp_all
  from c ds mc' bat set have "build_new_df filename (Dict kvs) now df
       = Some (absent_warnings df filename items, Inr new_df)"
    by (simp add: build_new_df_def now)
  moreover from set have "\<exists>attribute_rows.
      new_df = setitem ''Attributes'' (map Attributes attribute_rows) fr"
    by (auto simp: setitem_list_def split: if_splits)
  ultimately show ?thesis using q mc' that by blast
qed

lemma map_columns_present_entries:
  "map_columns df filename items (new_df, printed) = Some (printed', Inr new_df') \<Longrightarrow>
   map_columns df filename (present_entries df items) (new_df, q) = Some (q, Inr new_df')"
proof (induction items arbitrary: new_df printed)
  case Nil
  then show ?case by (simp add: present_entries_def)
next
  case (Cons p items)
  obtain source_col target_col where p: "p = (source_col, target_col)" by (cases p)
  show ?case
  proof (cases "source_col \<in> set (columns df)")
    case True
    with Cons.prems obtain target series where
      t: "target_col = Scalar (StrV target)"
      and r: "reindex df (column df source_col) = Some (Inr series)"
      and rest: "map_columns df filename items
          (setitem target (map Field series) new_df, printed) = Some (printed', Inr new_df')"
      by (auto simp: p split: pyval.splits scalar.splits option.splits sum.splits)
    from Cons.IH [OF rest] True t r show ?thesis
      by (simp add: p present_entries_def)
  next
    case False
    with Cons.prems have rest: "map_columns df filename items
        (new_df, printed @ [''Warning: Column '' @ source_col @ '' not found in '' @ filename])
      = Some (printed', Inr new_df')"
      by (simp add: p)
    from Cons.IH [OF rest] False show ?thesis by (simp add: p present_entries_def)
  qed
qed

lemma build_new_df_present_entries:
  assumes c: "map_of kvs ''columns'' = Some (Dict items)"
    and b: "build_new_df filename (Dict kvs) now df = Some (printed, Inr new_df)"
  shows "build_new_df filename (without_absent df (Dict kvs)) now df = Some ([], Inr new_df)"
proof -
  let ?kvs' = "dict_set kvs ''columns'' (Dict (present_entries df items))"
  from c have wa: "without_absent df (Dict kvs) = Dict ?kvs'"
    by (simp add: without_absent_def)
  have look: "map_of ?kvs' key
      = (if key = ''columns'' then Some (Dict (present_entries df items)) else map_of kvs key)"
    for key
    by (simp add: map_of_dict_set)
  have ba: "build_attributes df (Dict ?kvs') = build_attributes df (Dict kvs)"
    by (rule build_attributes_same_attributes) (simp add: look)
  obtain created modified inserted where now: "now = (created, modified, inserted)"
    by (cases now) auto
  from b c obtain data_source fr attribute_rows where
    ds: "(case map_of kvs ''data_source'' of None \<Rightarrow> Scalar (StrV ''unknown'') | Some v \<Rightarrow> v)
       = Scalar data_source"
    and mc: "map_columns df filename items
        (default_frame (nrows df) data_source created modified filename inserted, [])
      = Some (printed, Inr fr)"
    and bat: "build_attributes df (Dict kvs) = Inr attribute_rows"
    and set: "setitem_list ''Attributes'' (map Attributes attribute_rows) fr = Inr new_df"
    unfolding now
    by (auto simp: build_new_df_def
        split: sum.splits pyval.splits option.splits prod.splits)
  from map_columns_present_entries [OF mc, of "[]"] ds bat set show ?thesis
    unfolding wa by (simp add: build_new_df_def now look ba)
qed

lemma process_file_success:
  assumes ext: "endswith filename ''.xlsx'' \<or> endswith filename ''.csv''"
    and entry: "map_of kvs filename = Some file_mapping"
    and valid: "validate_mapping_config file_mapping filename = Inr True"
    and read: "read_result fe = Inr df"
    and norm: "normalize filename file_mapping (timestamps fe) df = Some (printed, Inr json_rows)"
    and sink: "load_result fe json_rows = None"
  shows "process_file (Dict kvs) filename fe =
     Inr (\<lparr>total_rows = nrows df, processed_rows = length json_rows, failed_rows = 0,
           status = ''success'', error_message = None,
           start_time = Some (start_now fe), end_time = Some (end_now fe)\<rparr>,
          (if endswith filename ''.xlsx'' then ReadExcel filename else ReadCsv filename)
            # map Print printed @ [LoadTable json_rows])"
proof -
  from entry have key: "filename \<in> fst ` set kvs" by (auto dest: map_of_SomeD simp: rev_image_eqI)
  with ext entry valid read norm sink show ?thesis
    by (simp add: process_file_def try_body_def normalize_outcome_def Let_def)
qed



end
